theory Spec2Isabelle
  imports Complex_Main "HOL-Library.Multiset"
begin

section \<open>Python values shared by the modules\<close>

text \<open>
  Exceptions are values. Only the classes that the modelled code raises or names in an
  \<open>except\<close> clause are told apart; \<open>OtherException\<close> stands for any further subclass of
  \<open>Exception\<close> that is derived neither from \<open>TypeError\<close> nor from \<open>ValueError\<close>.
  \<open>JSONDecodeError\<close> and pydantic's \<open>ValidationError\<close> are subclasses of \<open>ValueError\<close>.
\<close>

datatype exception =
    AttributeError
  | IndexError
  | TypeError
  | ValueError
  | JSONDecodeError
  | UnboundLocalError
  | KeyError
  | ValidationError
  | OtherException string

text \<open>
  What \<open>json.load\<close> returns and \<open>json.dump\<close> accepts. \<open>JNull\<close> is Python's \<open>None\<close>.
  Python floats are modelled by exact reals throughout.
\<close>

datatype json =
    JNull
  | JBool bool
  | JInt int
  | JFloat real
  | JStr string
  | JList "json list"
  | JDict "(string \<times> json) list"

text \<open>
  A Python \<open>dict\<close> with string keys keeps insertion order, so it is an association list.
  \<open>d.get(k)\<close> is \<open>dict_get\<close> (\<open>None\<close> for a missing key), \<open>d[k] = v\<close> is \<open>dict_set\<close>:
  an existing key keeps its position, a new key goes last.
\<close>

type_synonym 'v dict = "(string \<times> 'v) list"

definition dict_get :: "'v dict \<Rightarrow> string \<Rightarrow> 'v option" where
  "dict_get d k = map_of d k"

fun dict_set :: "'v dict \<Rightarrow> string \<Rightarrow> 'v \<Rightarrow> 'v dict" where
  "dict_set [] k v = [(k, v)]"
| "dict_set ((k', v') # d) k v = (if k' = k then (k, v) # d else (k', v') # dict_set d k v)"

section \<open>agents: the signal records\<close>

record ProjectTimeline =
  phase1 :: string
  phase2 :: string
  phase3 :: string
  phase4 :: string
  total_duration :: string
  key_milestones :: "string list"

record ProjectRecommendation =
  pursue_project :: bool
  confidence_score :: real
  key_factors :: "string list"
  resource_requirements :: "string list"
  timeline :: ProjectTimeline
  next_steps :: "string list"
  alternative_suggestions :: "string list"

text \<open>
  What an agent function can hand to the orchestrator: an instance of one of the pydantic
  classes, or \<open>None\<close>. The arguments of each signal follow the field order of its class:
  \<^item> \<open>SamAltmanSignal\<close>, \<open>ElonMuskSignal\<close>: opportunity_score, market_potential,
    technical_feasibility, reasoning, key_insights, potential_risks;
  \<^item> \<open>DemisHassabisSignal\<close>: scientific_breakthrough_potential, technical_advancement,
    research_feasibility, reasoning, key_breakthroughs, research_challenges;
  \<^item> \<open>AdamDAngeloSignal\<close>: platform_potential, ai_infrastructure, social_impact, reasoning,
    key_features, platform_challenges;
  \<^item> \<open>DanielGrossSignal\<close>: startup_potential, ai_infrastructure, market_fit, reasoning,
    key_advantages, startup_challenges;
  \<^item> \<open>SebastianThrunSignal\<close>: autonomous_systems_score, educational_impact,
    innovation_potential, reasoning, key_innovations, technical_challenges;
  \<^item> \<open>EmadMostaqueSignal\<close>: infrastructure_score, open_source_potential, community_impact,
    reasoning, key_infrastructure, community_challenges;
  \<^item> \<open>ClementDelangueSignal\<close>: ai_innovation_score, practical_application,
    technical_feasibility, reasoning, key_ai_features, implementation_challenges.
\<close>

datatype py_value =
    SamAltmanSignal real real real string "string list" "string list"
  | DemisHassabisSignal real real real string "string list" "string list"
  | ElonMuskSignal real real real string "string list" "string list"
  | AdamDAngeloSignal real real real string "string list" "string list"
  | DanielGrossSignal real real real string "string list" "string list"
  | SebastianThrunSignal real real real string "string list" "string list"
  | EmadMostaqueSignal real real real string "string list" "string list"
  | ClementDelangueSignal real real real string "string list" "string list"
  | ProjectRecommendationObj ProjectRecommendation
  | PyNone

section \<open>orchestrator: the aggregation\<close>

record ProductEvaluation =
  product_idea :: string
  overall_score :: real
  market_potential :: real
  technical_feasibility :: real
  innovation_potential :: real
  key_insights :: "string list"
  potential_risks :: "string list"
  agent_insights :: "py_value dict"
  recommendations :: "string list"
  project_recommendation :: py_value

text \<open>
  The dictionaries \<open>scores\<close> and \<open>score_counts\<close> of \<open>_combine_insights\<close> are built from one
  literal with thirteen keys and are only ever indexed by those literals, so a key is a
  value of an enumeration and a dictionary is a total function on it.
\<close>

datatype score_key =
    Opportunity_score
  | Market_potential
  | Technical_feasibility
  | Scientific_breakthrough_potential
  | Technical_advancement
  | Research_feasibility
  | Startup_potential
  | Ai_infrastructure
  | Platform_potential
  | Social_impact
  | Autonomous_systems_score
  | Educational_impact
  | Innovation_potential

type_synonym scores = "score_key \<Rightarrow> real"
type_synonym score_counts = "score_key \<Rightarrow> nat"

definition initial_scores :: scores where
  "initial_scores = (\<lambda>key. 0)"

definition initial_score_counts :: score_counts where
  "initial_score_counts = (\<lambda>key. 0)"

text \<open>\<open>scores[key] += v\<close> and \<open>score_counts[key] += 1\<close>.\<close>

definition scores_add :: "scores \<Rightarrow> score_key \<Rightarrow> real \<Rightarrow> scores" where
  "scores_add s key v = s(key := s key + v)"

definition counts_inc :: "score_counts \<Rightarrow> score_key \<Rightarrow> score_counts" where
  "counts_inc c key = c(key := c key + 1)"

text \<open>One definition for each \<open>if isinstance(agent_insights.get(name), Class)\<close> block.\<close>

definition process_sam_altman ::
  "py_value dict \<Rightarrow> scores \<times> score_counts \<Rightarrow> scores \<times> score_counts" where
  "process_sam_altman insights acc =
     (case dict_get insights ''Sam Altman'' of
        Some (SamAltmanSignal opportunity market feasibility reasoning ins risks) \<Rightarrow>
          (scores_add (scores_add (scores_add (fst acc)
              Opportunity_score opportunity)
              Market_potential market)
              Technical_feasibility feasibility,
           counts_inc (counts_inc (counts_inc (snd acc)
              Opportunity_score) Market_potential) Technical_feasibility)
      | _ \<Rightarrow> acc)"

definition process_demis_hassabis ::
  "py_value dict \<Rightarrow> scores \<times> score_counts \<Rightarrow> scores \<times> score_counts" where
  "process_demis_hassabis insights acc =
     (case dict_get insights ''Demis Hassabis'' of
        Some (DemisHassabisSignal breakthrough advancement feasibility reasoning ins risks) \<Rightarrow>
          (scores_add (scores_add (scores_add (fst acc)
              Scientific_breakthrough_potential breakthrough)
              Technical_advancement advancement)
              Research_feasibility feasibility,
           counts_inc (counts_inc (counts_inc (snd acc)
              Scientific_breakthrough_potential) Technical_advancement) Research_feasibility)
      | _ \<Rightarrow> acc)"

definition process_elon_musk ::
  "py_value dict \<Rightarrow> scores \<times> score_counts \<Rightarrow> scores \<times> score_counts" where
  "process_elon_musk insights acc =
     (case dict_get insights ''Elon Musk'' of
        Some (ElonMuskSignal opportunity market feasibility reasoning ins risks) \<Rightarrow>
          (scores_add (scores_add (scores_add (fst acc)
              Opportunity_score opportunity)
              Market_potential market)
              Technical_feasibility feasibility,
           counts_inc (counts_inc (counts_inc (snd acc)
              Opportunity_score) Market_potential) Technical_feasibility)
      | _ \<Rightarrow> acc)"

definition process_adam_dangelo ::
  "py_value dict \<Rightarrow> scores \<times> score_counts \<Rightarrow> scores \<times> score_counts" where
  "process_adam_dangelo insights acc =
     (case dict_get insights ''Adam D'Angelo'' of
        Some (AdamDAngeloSignal platform infrastructure social reasoning ins risks) \<Rightarrow>
          (scores_add (scores_add (scores_add (fst acc)
              Platform_potential platform)
              Ai_infrastructure infrastructure)
              Social_impact social,
           counts_inc (counts_inc (counts_inc (snd acc)
              Platform_potential) Ai_infrastructure) Social_impact)
      | _ \<Rightarrow> acc)"

definition process_daniel_gross ::
  "py_value dict \<Rightarrow> scores \<times> score_counts \<Rightarrow> scores \<times> score_counts" where
  "process_daniel_gross insights acc =
     (case dict_get insights ''Daniel Gross'' of
        Some (DanielGrossSignal startup infrastructure market_fit reasoning ins risks) \<Rightarrow>
          (scores_add (scores_add (scores_add (fst acc)
              Startup_potential startup)
              Ai_infrastructure infrastructure)
              Market_potential market_fit,
           counts_inc (counts_inc (counts_inc (snd acc)
              Startup_potential) Ai_infrastructure) Market_potential)
      | _ \<Rightarrow> acc)"

definition process_sebastian_thrun ::
  "py_value dict \<Rightarrow> scores \<times> score_counts \<Rightarrow> scores \<times> score_counts" where
  "process_sebastian_thrun insights acc =
     (case dict_get insights ''Sebastian Thrun'' of
        Some (SebastianThrunSignal autonomous educational innovation reasoning ins risks) \<Rightarrow>
          (scores_add (scores_add (scores_add (fst acc)
              Autonomous_systems_score autonomous)
              Educational_impact educational)
              Innovation_potential innovation,
           counts_inc (counts_inc (counts_inc (snd acc)
              Autonomous_systems_score) Educational_impact) Innovation_potential)
      | _ \<Rightarrow> acc)"

definition process_emad_mostaque ::
  "py_value dict \<Rightarrow> scores \<times> score_counts \<Rightarrow> scores \<times> score_counts" where
  "process_emad_mostaque insights acc =
     (case dict_get insights ''Emad Mostaque'' of
        Some (EmadMostaqueSignal infrastructure open_source community reasoning ins risks) \<Rightarrow>
          (scores_add (scores_add (scores_add (fst acc)
              Ai_infrastructure infrastructure)
              Social_impact community)
              Technical_feasibility open_source,
           counts_inc (counts_inc (counts_inc (snd acc)
              Ai_infrastructure) Social_impact) Technical_feasibility)
      | _ \<Rightarrow> acc)"

definition process_clement_delangue ::
  "py_value dict \<Rightarrow> scores \<times> score_counts \<Rightarrow> scores \<times> score_counts" where
  "process_clement_delangue insights acc =
     (case dict_get insights ''Clement Delangue'' of
        Some (ClementDelangueSignal innovation practical feasibility reasoning ins risks) \<Rightarrow>
          (scores_add (scores_add (scores_add (fst acc)
              Ai_infrastructure innovation)
              Technical_feasibility feasibility)
              Market_potential practical,
           counts_inc (counts_inc (counts_inc (snd acc)
              Ai_infrastructure) Technical_feasibility) Market_potential)
      | _ \<Rightarrow> acc)"

text \<open>The eight blocks in the order of the source, from the zeroed dictionaries.\<close>

definition accumulate_scores :: "py_value dict \<Rightarrow> scores \<times> score_counts" where
  "accumulate_scores insights =
     process_clement_delangue insights
      (process_emad_mostaque insights
        (process_sebastian_thrun insights
          (process_daniel_gross insights
            (process_adam_dangelo insights
              (process_elon_musk insights
                (process_demis_hassabis insights
                  (process_sam_altman insights
                    (initial_scores, initial_score_counts))))))))"

text \<open>
  \<open>for key in scores: if score_counts[key] > 0: scores[key] /= score_counts[key]\<close>
\<close>

definition calculate_averages :: "scores \<times> score_counts \<Rightarrow> scores" where
  "calculate_averages acc =
     (\<lambda>key. if snd acc key > 0 then fst acc key / real (snd acc key) else fst acc key)"

definition averaged_scores :: "py_value dict \<Rightarrow> scores" where
  "averaged_scores insights = calculate_averages (accumulate_scores insights)"

definition key_metrics :: "score_key list" where
  "key_metrics =
     [Opportunity_score, Market_potential, Technical_feasibility,
      Scientific_breakthrough_potential, Ai_infrastructure, Innovation_potential]"

text \<open>Python's \<open>sum\<close>: from 0, adding from the left.\<close>

definition py_sum :: "real list \<Rightarrow> real" where
  "py_sum xs = foldl (+) 0 xs"

definition calculate_overall_score :: "scores \<Rightarrow> real" where
  "calculate_overall_score s = py_sum (map s key_metrics) / real (length key_metrics)"

text \<open>
  The second chain of \<open>isinstance\<close> blocks: each present signal extends \<open>key_insights\<close> by
  its first list field and \<open>potential_risks\<close> by its second one.
\<close>

definition collect_sam_altman ::
  "py_value dict \<Rightarrow> string list \<times> string list \<Rightarrow> string list \<times> string list" where
  "collect_sam_altman insights acc =
     (case dict_get insights ''Sam Altman'' of
        Some (SamAltmanSignal s1 s2 s3 reasoning ins risks) \<Rightarrow> (fst acc @ ins, snd acc @ risks)
      | _ \<Rightarrow> acc)"

definition collect_demis_hassabis ::
  "py_value dict \<Rightarrow> string list \<times> string list \<Rightarrow> string list \<times> string list" where
  "collect_demis_hassabis insights acc =
     (case dict_get insights ''Demis Hassabis'' of
        Some (DemisHassabisSignal s1 s2 s3 reasoning ins risks) \<Rightarrow> (fst acc @ ins, snd acc @ risks)
      | _ \<Rightarrow> acc)"

definition collect_elon_musk ::
  "py_value dict \<Rightarrow> string list \<times> string list \<Rightarrow> string list \<times> string list" where
  "collect_elon_musk insights acc =
     (case dict_get insights ''Elon Musk'' of
        Some (ElonMuskSignal s1 s2 s3 reasoning ins risks) \<Rightarrow> (fst acc @ ins, snd acc @ risks)
      | _ \<Rightarrow> acc)"

definition collect_adam_dangelo ::
  "py_value dict \<Rightarrow> string list \<times> string list \<Rightarrow> string list \<times> string list" where
  "collect_adam_dangelo insights acc =
     (case dict_get insights ''Adam D'Angelo'' of
        Some (AdamDAngeloSignal s1 s2 s3 reasoning ins risks) \<Rightarrow> (fst acc @ ins, snd acc @ risks)
      | _ \<Rightarrow> acc)"

definition collect_daniel_gross ::
  "py_value dict \<Rightarrow> string list \<times> string list \<Rightarrow> string list \<times> string list" where
  "collect_daniel_gross insights acc =
     (case dict_get insights ''Daniel Gross'' of
        Some (DanielGrossSignal s1 s2 s3 reasoning ins risks) \<Rightarrow> (fst acc @ ins, snd acc @ risks)
      | _ \<Rightarrow> acc)"

definition collect_sebastian_thrun ::
  "py_value dict \<Rightarrow> string list \<times> string list \<Rightarrow> string list \<times> string list" where
  "collect_sebastian_thrun insights acc =
     (case dict_get insights ''Sebastian Thrun'' of
        Some (SebastianThrunSignal s1 s2 s3 reasoning ins risks) \<Rightarrow> (fst acc @ ins, snd acc @ risks)
      | _ \<Rightarrow> acc)"

definition collect_emad_mostaque ::
  "py_value dict \<Rightarrow> string list \<times> string list \<Rightarrow> string list \<times> string list" where
  "collect_emad_mostaque insights acc =
     (case dict_get insights ''Emad Mostaque'' of
        Some (EmadMostaqueSignal s1 s2 s3 reasoning ins risks) \<Rightarrow> (fst acc @ ins, snd acc @ risks)
      | _ \<Rightarrow> acc)"

definition collect_clement_delangue ::
  "py_value dict \<Rightarrow> string list \<times> string list \<Rightarrow> string list \<times> string list" where
  "collect_clement_delangue insights acc =
     (case dict_get insights ''Clement Delangue'' of
        Some (ClementDelangueSignal s1 s2 s3 reasoning ins risks) \<Rightarrow> (fst acc @ ins, snd acc @ risks)
      | _ \<Rightarrow> acc)"

definition collect_insights :: "py_value dict \<Rightarrow> string list \<times> string list" where
  "collect_insights insights =
     collect_clement_delangue insights
      (collect_emad_mostaque insights
        (collect_sebastian_thrun insights
          (collect_daniel_gross insights
            (collect_adam_dangelo insights
              (collect_elon_musk insights
                (collect_demis_hassabis insights
                  (collect_sam_altman insights ([], []))))))))"

section \<open>Strings\<close>

text \<open>
  The \<open>str\<close> methods that the code calls. \<open>starts_with s p\<close> is \<open>s.startswith(p)\<close>,
  \<open>is_substring sub s\<close> is \<open>sub in s\<close>, \<open>str_find s sub\<close> is \<open>s.find(sub)\<close> and \<open>str_rfind s sub\<close>
  is \<open>s.rfind(sub)\<close>, both \<open>-1\<close> when \<open>sub\<close> does not occur.
\<close>

fun starts_with :: "string \<Rightarrow> string \<Rightarrow> bool" where
  "starts_with s [] = True"
| "starts_with [] (p # ps) = False"
| "starts_with (c # cs) (p # ps) = (c = p \<and> starts_with cs ps)"


fun str_find_from :: "string \<Rightarrow> string \<Rightarrow> int \<Rightarrow> int" where
  "str_find_from [] sub i = (if sub = [] then i else - 1)"
| "str_find_from (c # cs) sub i =
     (if starts_with (c # cs) sub then i else str_find_from cs sub (i + 1))"

definition str_find :: "string \<Rightarrow> string \<Rightarrow> int" where
  "str_find s sub = str_find_from s sub 0"

fun str_rfind_from :: "string \<Rightarrow> string \<Rightarrow> int \<Rightarrow> int \<Rightarrow> int" where
  "str_rfind_from [] sub i best = (if sub = [] then i else best)"
| "str_rfind_from (c # cs) sub i best =
     str_rfind_from cs sub (i + 1) (if starts_with (c # cs) sub then i else best)"

definition str_rfind :: "string \<Rightarrow> string \<Rightarrow> int" where
  "str_rfind s sub = str_rfind_from s sub 0 (- 1)"

text \<open>
  \<open>s[a:b]\<close> for \<open>0 \<le> a\<close> and \<open>0 \<le> b\<close>, the only slices the code takes (it checks
  \<open>json_start >= 0\<close> and \<open>json_end > json_start\<close> first).
\<close>

definition str_slice :: "string \<Rightarrow> int \<Rightarrow> int \<Rightarrow> string" where
  "str_slice s a b = take (nat (b - a)) (drop (nat a) s)"

text \<open>
  \<open>s.split(sep)\<close> for a separator that is not empty (the code only splits at the code fence):
  the pieces between the occurrences of \<open>sep\<close>, found from the left and not overlapping.
\<close>

fun str_split_from :: "string \<Rightarrow> string \<Rightarrow> string \<Rightarrow> string list" where
  "str_split_from sep piece [] = [rev piece]"
| "str_split_from sep piece (c # cs) =
     (if sep \<noteq> [] \<and> starts_with (c # cs) sep
      then rev piece # str_split_from sep [] (drop (length sep - 1) cs)
      else str_split_from sep (c # piece) cs)"

definition str_split :: "string \<Rightarrow> string \<Rightarrow> string list" where
  "str_split s sep = str_split_from sep [] s"

definition fence :: string where
  "fence = ''```''"

section \<open>utils.llm: what a call of the model gives back\<close>

text \<open>
  \<open>call_llm(prompt)\<close> without an output format returns the text of the reply, or \<open>None\<close>
  (the local backend returns \<open>None\<close> when its request fails), or raises. The model's reply is
  the environment's: \<open>call_llm\<close> is a parameter, a function of the prompt. The prompt of
  \<open>_generate_recommendations\<close> is represented by the values it interpolates.
\<close>

datatype llm_reply = ReplyNone | ReplyText string

datatype prompt =
  RecommendationsPrompt string real real real real "string list" "string list"

type_synonym llm = "prompt \<Rightarrow> exception + llm_reply"

section \<open>orchestrator: recommendations and the run\<close>

definition fallback_recommendations :: "string list" where
  "fallback_recommendations =
     [''Conduct more detailed market research'',
      ''Develop a minimum viable product (MVP)'',
      ''Assemble a diverse team with complementary skills'',
      ''Create a detailed roadmap with milestones'',
      ''Establish key performance indicators (KPIs)'']"

text \<open>The classes of \<open>except (json.JSONDecodeError, TypeError, ValueError)\<close>, with subclasses.\<close>

definition caught_by_parse_handler :: "exception \<Rightarrow> bool" where
  "caught_by_parse_handler e = (e \<in> {JSONDecodeError, TypeError, ValueError, ValidationError})"

text \<open>
  \<open>_generate_recommendations\<close>. The \<open>try\<close> block calls the model, takes piece 1 of the reply
  split at the code fence and serialises it with \<open>json.dumps\<close>; that gives a \<open>str\<close>, on which
  \<open>isinstance(recommendations, dict)\<close> is false, so the \<open>return\<close> inside the \<open>try\<close> is never
  taken and the fallback list is returned. The handler prints \<open>response\<close>: when \<open>call_llm\<close>
  itself raised one of the caught classes that name is unbound and the handler raises
  \<open>UnboundLocalError\<close>. \<open>None.split\<close> raises \<open>AttributeError\<close> and \<open>[...][1]\<close> on a reply with
  no fence raises \<open>IndexError\<close>; the handler catches neither.
\<close>

definition generate_recommendations ::
  "llm \<Rightarrow> string \<Rightarrow> scores \<Rightarrow> string list \<Rightarrow> string list \<Rightarrow> exception + string list" where
  "generate_recommendations call_llm idea s insights risks =
     (case call_llm (RecommendationsPrompt idea (s Opportunity_score) (s Market_potential)
                       (s Technical_feasibility) (s Scientific_breakthrough_potential)
                       insights risks) of
        Inl e \<Rightarrow> (if caught_by_parse_handler e then Inl UnboundLocalError else Inl e)
      | Inr ReplyNone \<Rightarrow> Inl AttributeError
      | Inr (ReplyText response) \<Rightarrow>
          (if length (str_split response fence) < 2 then Inl IndexError
           else Inr fallback_recommendations))"

text \<open>
  \<open>_combine_insights\<close>. When the Project Advisor's slot holds a \<open>ProjectRecommendation\<close> the
  code reads its attribute \<open>recommendations\<close>, which the class does not declare:
  \<open>AttributeError\<close>. Otherwise \<open>recommendations\<close> is still empty and
  \<open>_generate_recommendations\<close> is called.
\<close>

definition combine_insights ::
  "llm \<Rightarrow> string \<Rightarrow> py_value dict \<Rightarrow> exception + ProductEvaluation" where
  "combine_insights call_llm idea insights =
     (let s = averaged_scores insights;
          overall = calculate_overall_score s;
          lists = collect_insights insights
      in case dict_get insights ''Project Advisor'' of
           Some (ProjectRecommendationObj advice) \<Rightarrow> Inl AttributeError
         | _ \<Rightarrow>
            (case generate_recommendations call_llm idea s (fst lists) (snd lists) of
               Inl e \<Rightarrow> Inl e
             | Inr recs \<Rightarrow>
                 Inr \<lparr> product_idea = idea,
                       overall_score = overall,
                       market_potential = s Market_potential,
                       technical_feasibility = s Technical_feasibility,
                       innovation_potential = s Scientific_breakthrough_potential,
                       key_insights = fst lists,
                       potential_risks = snd lists,
                       agent_insights = insights,
                       recommendations = recs,
                       project_recommendation = PyNone \<rparr>))"

text \<open>
  The state handed to every agent function: the idea and the three context dictionaries
  (\<open>market_context or {}\<close> turns \<open>None\<close> into the empty dictionary).
\<close>

record AgentState =
  state_product_idea :: string
  state_market_context :: "json dict"
  state_technical_context :: "json dict"
  state_user_background :: "json dict"

definition or_empty :: "json dict option \<Rightarrow> json dict" where
  "or_empty ctx = (case ctx of None \<Rightarrow> [] | Some d \<Rightarrow> d)"

definition make_state ::
  "string \<Rightarrow> json dict option \<Rightarrow> json dict option \<Rightarrow> json dict option \<Rightarrow> AgentState" where
  "make_state idea market_context technical_context user_background =
     \<lparr> state_product_idea = idea,
       state_market_context = or_empty market_context,
       state_technical_context = or_empty technical_context,
       state_user_background = or_empty user_background \<rparr>"

text \<open>
  An agent function returns a value or raises. The nine functions are the environment's
  (each one calls the model): \<open>agent_of\<close> gives the function registered under a name.
\<close>

type_synonym agent_func = "AgentState \<Rightarrow> exception + py_value"

definition agent_names :: "string list" where
  "agent_names =
     [''Sam Altman'', ''Demis Hassabis'', ''Elon Musk'', ''Adam D'Angelo'', ''Daniel Gross'',
      ''Sebastian Thrun'', ''Emad Mostaque'', ''Clement Delangue'', ''Project Advisor'']"

definition all_agents :: "(string \<Rightarrow> agent_func) \<Rightarrow> (string \<times> agent_func) list" where
  "all_agents agent_of = map (\<lambda>agent_name. (agent_name, agent_of agent_name)) agent_names"

text \<open>
  The loop over \<open>enabled_agents.items()\<close>: \<open>except Exception\<close> stores \<open>None\<close> in the slot of
  an agent that raised, and the loop goes on.
\<close>

fun run_agents ::
  "(string \<times> agent_func) list \<Rightarrow> AgentState \<Rightarrow> py_value dict \<Rightarrow> py_value dict" where
  "run_agents [] state insights = insights"
| "run_agents ((agent_name, agent_func) # rest) state insights =
     run_agents rest state
       (dict_set insights agent_name
          (case agent_func state of Inl e \<Rightarrow> PyNone | Inr v \<Rightarrow> v))"

definition select_agents ::
  "(string \<Rightarrow> agent_func) \<Rightarrow> string list option \<Rightarrow> (string \<times> agent_func) list" where
  "select_agents agent_of selected_agents =
     (case selected_agents of
        None \<Rightarrow> all_agents agent_of
      | Some sel \<Rightarrow> filter (\<lambda>entry. fst entry \<in> set sel) (all_agents agent_of))"

definition evaluate_product ::
  "(string \<Rightarrow> agent_func) \<Rightarrow> llm \<Rightarrow> string \<Rightarrow> string list option \<Rightarrow> json dict option \<Rightarrow>
   json dict option \<Rightarrow> json dict option \<Rightarrow> exception + ProductEvaluation" where
  "evaluate_product agent_of call_llm idea selected_agents market_context technical_context
     user_background =
     (let enabled_agents = select_agents agent_of selected_agents;
          state = make_state idea market_context technical_context user_background;
          insights = run_agents enabled_agents state []
      in case combine_insights call_llm idea insights of
           Inl e \<Rightarrow> Inl e
         | Inr evaluation \<Rightarrow>
             (case dict_get insights ''Project Advisor'' of
                None \<Rightarrow> Inr evaluation
              | Some advice \<Rightarrow>
                  (if advice = PyNone then Inr evaluation
                   else Inr (evaluation\<lparr>project_recommendation := advice\<rparr>))))"

section \<open>agents.project_advisor: the final recommendation\<close>







definition fallback_recommendation :: ProjectRecommendation where
  "fallback_recommendation =
     \<lparr> pursue_project = False,
       confidence_score = 0,
       key_factors =
         [''Error occurred during analysis'', ''Unable to parse recommendation'',
          ''Please check the input data and try again''],
       resource_requirements =
         [''Technical review needed'', ''Data validation required'', ''System check necessary''],
       timeline =
         \<lparr> phase1 = ''Analysis phase pending'',
           phase2 = ''Development phase pending'',
           phase3 = ''Testing phase pending'',
           phase4 = ''Launch phase pending'',
           total_duration = ''To be determined'',
           key_milestones =
             [''Initial analysis completion'', ''Technical validation'',
              ''Resource assessment''] \<rparr>,
       next_steps =
         [''Review input data for completeness'', ''Validate agent insights'',
          ''Retry analysis with verified data''],
       alternative_suggestions =
         [''Consider simplifying the product idea'', ''Break down into smaller components'',
          ''Gather more specific requirements''] \<rparr>"


section \<open>agent_selector: the registry and its stored configuration\<close>

text \<open>
  \<open>AgentConfig\<close>. The class declares \<open>enabled: bool\<close> and \<open>priority: int\<close>, but \<open>_load_config\<close>
  assigns to both whatever the stored document holds (pydantic does not validate an
  assignment by default), so both fields range over JSON values.
\<close>

record AgentConfig =
  name :: string
  description :: string
  enabled :: json
  priority :: json

text \<open>What the selector prints on its console.\<close>

datatype console_line =
    ErrorLoadingConfig exception
  | ErrorSavingConfig exception
  | CannotDisableAdvisor

record AgentSelector =
  config_file :: string
  agents :: "AgentConfig dict"
  console :: "console_line list"

text \<open>
  The file system, as far as the selector sees it: a path holds no file, or a JSON
  document (what \<open>json.load\<close> returns for it, which is what \<open>json.dump\<close> was given), or
  something that \<open>open\<close> or \<open>json.load\<close> fails on with the exception given. A path that is not
  writable makes \<open>open(path, 'w')\<close> fail and keeps what it holds.
\<close>

datatype stored = Document json | Unreadable exception

record filesystem =
  files :: "string \<Rightarrow> stored option"
  writable :: "string \<Rightarrow> bool"

definition default_agents :: "AgentConfig dict" where
  "default_agents =
     [(''sam_altman'',
         \<lparr> name = ''Sam Altman'',
           description = ''Evaluates startup potential, market fit, and technical feasibility'',
           enabled = JBool True, priority = JInt 1 \<rparr>),
      (''demis_hassabis'',
         \<lparr> name = ''Demis Hassabis'',
           description =
             ''Analyzes scientific breakthroughs, technical advancement, and research feasibility'',
           enabled = JBool True, priority = JInt 2 \<rparr>),
      (''elon_musk'',
         \<lparr> name = ''Elon Musk'',
           description =
             ''Assesses innovation potential, market disruption, and technical feasibility'',
           enabled = JBool True, priority = JInt 3 \<rparr>),
      (''adam_dangelo'',
         \<lparr> name = ''Adam D'Angelo'',
           description = ''Evaluates platform potential, AI infrastructure, and social impact'',
           enabled = JBool True, priority = JInt 4 \<rparr>),
      (''daniel_gross'',
         \<lparr> name = ''Daniel Gross'',
           description = ''Analyzes startup potential, AI infrastructure, and market fit'',
           enabled = JBool True, priority = JInt 5 \<rparr>),
      (''sebastian_thrun'',
         \<lparr> name = ''Sebastian Thrun'',
           description =
             ''Evaluates autonomous systems, educational impact, and innovation potential'',
           enabled = JBool True, priority = JInt 6 \<rparr>),
      (''emad_mostaque'',
         \<lparr> name = ''Emad Mostaque'',
           description =
             ''Assesses AI infrastructure, community impact, and open source potential'',
           enabled = JBool True, priority = JInt 7 \<rparr>),
      (''clement_delangue'',
         \<lparr> name = ''Clement Delangue'',
           description =
             ''Analyzes AI innovation, technical feasibility, and practical applications'',
           enabled = JBool True, priority = JInt 8 \<rparr>),
      (''project_advisor'',
         \<lparr> name = ''Project Advisor'',
           description =
             ''Provides final recommendation and timeline based on all other agents'',
           enabled = JBool True, priority = JInt 9 \<rparr>)]"

text \<open>\<open>config.get(key, default)\<close> on a dictionary.\<close>

definition dict_get_default :: "json dict \<Rightarrow> string \<Rightarrow> json \<Rightarrow> json" where
  "dict_get_default kvs key dflt = (case dict_get kvs key of None \<Rightarrow> dflt | Some v \<Rightarrow> v)"

text \<open>
  The loop of \<open>_load_config\<close> over \<open>config_data.items()\<close>. The agents are updated in place, so
  when an entry makes \<open>config.get\<close> raise (\<open>config\<close> is not a dictionary) the entries before it
  stay applied: the loop returns the agents so far and the exception, if any.
\<close>

fun load_items :: "(string \<times> json) list \<Rightarrow> AgentConfig dict \<Rightarrow> AgentConfig dict \<times> exception option"
  where
  "load_items [] ags = (ags, None)"
| "load_items ((agent_id, config) # rest) ags =
     (case dict_get ags agent_id of
        None \<Rightarrow> load_items rest ags
      | Some agent \<Rightarrow>
          (case config of
             JDict kvs \<Rightarrow>
               load_items rest
                 (dict_set ags agent_id
                    (agent\<lparr> enabled := dict_get_default kvs ''enabled'' (JBool True),
                            priority := dict_get_default kvs ''priority'' (JInt 0) \<rparr>))
           | _ \<Rightarrow> (ags, Some AttributeError)))"

definition load_config :: "filesystem \<Rightarrow> AgentSelector \<Rightarrow> AgentSelector" where
  "load_config fs sel =
     (case files fs (config_file sel) of
        None \<Rightarrow> sel
      | Some (Unreadable e) \<Rightarrow> sel\<lparr> console := console sel @ [ErrorLoadingConfig e] \<rparr>
      | Some (Document (JDict config_data)) \<Rightarrow>
          (case load_items config_data (agents sel) of
             (ags, None) \<Rightarrow> sel\<lparr> agents := ags \<rparr>
           | (ags, Some e) \<Rightarrow>
               sel\<lparr> agents := ags, console := console sel @ [ErrorLoadingConfig e] \<rparr>)
      | Some (Document other) \<Rightarrow>
          sel\<lparr> console := console sel @ [ErrorLoadingConfig AttributeError] \<rparr>)"

text \<open>\<open>__init__\<close>: the path (\<open>config_file or "agent_config.json"\<close>), the defaults, the load.\<close>

definition effective_path :: "string option \<Rightarrow> string" where
  "effective_path path =
     (case path of
        None \<Rightarrow> ''agent_config.json''
      | Some p \<Rightarrow> (if p = [] then ''agent_config.json'' else p))"

definition init_selector :: "string option \<Rightarrow> filesystem \<Rightarrow> AgentSelector" where
  "init_selector path fs =
     load_config fs
       \<lparr> config_file = effective_path path, agents = default_agents, console = [] \<rparr>"

definition config_data_of :: "AgentConfig dict \<Rightarrow> json" where
  "config_data_of ags =
     JDict (map (\<lambda>entry. (fst entry,
                   JDict [(''enabled'', enabled (snd entry)), (''priority'', priority (snd entry))]))
              ags)"

definition save_config :: "AgentSelector \<Rightarrow> filesystem \<Rightarrow> AgentSelector \<times> filesystem" where
  "save_config sel fs =
     (if writable fs (config_file sel)
      then (sel, fs\<lparr> files := (files fs)(config_file sel := Some (Document (config_data_of (agents sel)))) \<rparr>)
      else (sel\<lparr> console := console sel @ [ErrorSavingConfig (OtherException ''OSError'')] \<rparr>, fs))"

text \<open>Python's truth value of a JSON value, for \<open>not agent.enabled\<close>.\<close>

fun truthy :: "json \<Rightarrow> bool" where
  "truthy JNull = False"
| "truthy (JBool b) = b"
| "truthy (JInt i) = (i \<noteq> 0)"
| "truthy (JFloat x) = (x \<noteq> 0)"
| "truthy (JStr s) = (s \<noteq> [])"
| "truthy (JList xs) = (xs \<noteq> [])"
| "truthy (JDict kvs) = (kvs \<noteq> [])"

definition toggle_agent ::
  "string \<Rightarrow> AgentSelector \<Rightarrow> filesystem \<Rightarrow> bool \<times> AgentSelector \<times> filesystem" where
  "toggle_agent agent_id sel fs =
     (case dict_get (agents sel) agent_id of
        None \<Rightarrow> (False, sel, fs)
      | Some agent \<Rightarrow>
          (if agent_id = ''project_advisor''
           then (False, sel\<lparr> console := console sel @ [CannotDisableAdvisor] \<rparr>, fs)
           else
             (let sel' = sel\<lparr> agents := dict_set (agents sel) agent_id
                                   (agent\<lparr> enabled := JBool (\<not> truthy (enabled agent)) \<rparr>) \<rparr>
              in (True, save_config sel' fs))))"

definition set_agent_priority ::
  "string \<Rightarrow> int \<Rightarrow> AgentSelector \<Rightarrow> filesystem \<Rightarrow> bool \<times> AgentSelector \<times> filesystem" where
  "set_agent_priority agent_id p sel fs =
     (case dict_get (agents sel) agent_id of
        None \<Rightarrow> (False, sel, fs)
      | Some agent \<Rightarrow>
          (let sel' = sel\<lparr> agents := dict_set (agents sel) agent_id
                                (agent\<lparr> priority := JInt p \<rparr>) \<rparr>
           in (True, save_config sel' fs)))"

section \<open>utils.ollama_utils: extracting JSON from a reply\<close>

text \<open>
  \<open>json_loads\<close> is \<open>json.loads\<close> (the standard library's; a parameter): the parsed value or
  the exception. \<open>loads_or_none\<close> is the effect of \<open>return json.loads(json_str)\<close> under
  \<open>except Exception: return None\<close>.
\<close>

definition loads_or_none :: "(string \<Rightarrow> exception + json) \<Rightarrow> string \<Rightarrow> json" where
  "loads_or_none json_loads json_str =
     (case json_loads json_str of Inl e \<Rightarrow> JNull | Inr v \<Rightarrow> v)"

text \<open>
  The text that \<open>extract_json_from_response\<close> hands to \<open>json.loads\<close>, if any: from the first
  \<open>{\<close> to the last \<open>}\<close> when that is a span, otherwise from the first \<open>[\<close> to the last \<open>]\<close>.
\<close>

definition json_str_of :: "string \<Rightarrow> string option" where
  "json_str_of content =
     (let json_start = str_find content ''{'';
          json_end = str_rfind content ''}'' + 1
      in if json_start \<ge> 0 \<and> json_end > json_start
         then Some (str_slice content json_start json_end)
         else
           (let json_start = str_find content ''['';
                json_end = str_rfind content '']'' + 1
            in if json_start \<ge> 0 \<and> json_end > json_start
               then Some (str_slice content json_start json_end)
               else None))"

definition extract_json_from_response :: "(string \<Rightarrow> exception + json) \<Rightarrow> string \<Rightarrow> json" where
  "extract_json_from_response json_loads content =
     (case json_str_of content of
        None \<Rightarrow> JNull
      | Some json_str \<Rightarrow> loads_or_none json_loads json_str)"

section \<open>utils.llm and the personas: default values\<close>

text \<open>
  The annotation of a pydantic field, as \<open>create_default_response\<close> tells annotations apart:
  \<open>str\<close>, \<open>float\<close>, \<open>int\<close>, a \<open>Literal\<close> with its values, a parametrised generic such as
  \<open>dict[str, float]\<close> or \<open>list[str]\<close> with its origin and its first argument, and annotations
  with neither \<open>__origin__\<close> nor \<open>__args__\<close> (\<open>bool\<close>, a model class).
\<close>

datatype annotation =
    AnnStr
  | AnnFloat
  | AnnInt
  | AnnLiteral json "json list"
  | AnnGeneric string annotation
  | AnnPlain string

text \<open>
  The default that the loop stores for a field: a JSON value, or for a generic the type
  object that is its first argument (\<open>field.annotation.__args__[0]\<close>).
\<close>

datatype default_value = DefaultValue json | DefaultTypeObject annotation

fun default_for :: "annotation \<Rightarrow> default_value" where
  "default_for AnnStr = DefaultValue (JStr ''Error in analysis, using default'')"
| "default_for AnnFloat = DefaultValue (JFloat 0)"
| "default_for AnnInt = DefaultValue (JInt 0)"
| "default_for (AnnLiteral first_value others) = DefaultValue first_value"
| "default_for (AnnGeneric origin first_arg) =
     (if origin = ''dict'' then DefaultValue (JDict []) else DefaultTypeObject first_arg)"
| "default_for (AnnPlain class_name) = DefaultValue JNull"

definition default_values :: "(string \<times> annotation) list \<Rightarrow> (string \<times> default_value) list" where
  "default_values model_fields =
     map (\<lambda>entry. (fst entry, default_for (snd entry))) model_fields"

text \<open>
  \<open>create_default_response\<close>: the loop, then \<open>model_class(**default_values)\<close>. The
  construction is pydantic's (a parameter): the record or the exception.
\<close>

definition create_default_response ::
  "((string \<times> default_value) list \<Rightarrow> exception + 'r) \<Rightarrow> (string \<times> annotation) list \<Rightarrow>
   exception + 'r" where
  "create_default_response build_model model_fields = build_model (default_values model_fields)"

text \<open>The fields of \<open>SamAltmanSignal\<close>, as \<open>model_fields\<close> lists them.\<close>

definition SamAltmanSignal_fields :: "(string \<times> annotation) list" where
  "SamAltmanSignal_fields =
     [(''opportunity_score'', AnnFloat), (''market_potential'', AnnFloat),
      (''technical_feasibility'', AnnFloat), (''reasoning'', AnnStr),
      (''key_insights'', AnnGeneric ''list'' AnnStr),
      (''potential_risks'', AnnGeneric ''list'' AnnStr)]"



section \<open>The specification's side\<close>

text \<open>
  The aggregation as the specification words it: a static table routes the scores of a
  present signal into buckets, and a bucket's value is the arithmetic mean of what it
  received, 0 when it received nothing. A signal is present when the slot of its persona
  holds an instance of the persona's class.
\<close>

fun spec_routing :: "string \<Rightarrow> py_value \<Rightarrow> (score_key \<times> real) list" where
  "spec_routing persona (SamAltmanSignal a b c r i k) =
     (if persona = ''Sam Altman''
      then [(Opportunity_score, a), (Market_potential, b), (Technical_feasibility, c)] else [])"
| "spec_routing persona (DemisHassabisSignal a b c r i k) =
     (if persona = ''Demis Hassabis''
      then [(Scientific_breakthrough_potential, a), (Technical_advancement, b),
            (Research_feasibility, c)] else [])"
| "spec_routing persona (ElonMuskSignal a b c r i k) =
     (if persona = ''Elon Musk''
      then [(Opportunity_score, a), (Market_potential, b), (Technical_feasibility, c)] else [])"
| "spec_routing persona (AdamDAngeloSignal a b c r i k) =
     (if persona = ''Adam D'Angelo''
      then [(Platform_potential, a), (Ai_infrastructure, b), (Social_impact, c)] else [])"
| "spec_routing persona (DanielGrossSignal a b c r i k) =
     (if persona = ''Daniel Gross''
      then [(Startup_potential, a), (Ai_infrastructure, b), (Market_potential, c)] else [])"
| "spec_routing persona (SebastianThrunSignal a b c r i k) =
     (if persona = ''Sebastian Thrun''
      then [(Autonomous_systems_score, a), (Educational_impact, b), (Innovation_potential, c)]
      else [])"
| "spec_routing persona (EmadMostaqueSignal a b c r i k) =
     (if persona = ''Emad Mostaque''
      then [(Ai_infrastructure, a), (Technical_feasibility, b), (Social_impact, c)] else [])"
| "spec_routing persona (ClementDelangueSignal a b c r i k) =
     (if persona = ''Clement Delangue''
      then [(Ai_infrastructure, a), (Market_potential, b), (Technical_feasibility, c)] else [])"
| "spec_routing persona (ProjectRecommendationObj advice) = []"
| "spec_routing persona PyNone = []"

text \<open>The registration order of the eight scoring personas.\<close>

definition persona_order :: "string list" where
  "persona_order =
     [''Sam Altman'', ''Demis Hassabis'', ''Elon Musk'', ''Adam D'Angelo'', ''Daniel Gross'',
      ''Sebastian Thrun'', ''Emad Mostaque'', ''Clement Delangue'']"

definition routed_for :: "py_value dict \<Rightarrow> string \<Rightarrow> (score_key \<times> real) list" where
  "routed_for d persona =
     (case dict_get d persona of None \<Rightarrow> [] | Some v \<Rightarrow> spec_routing persona v)"

definition pick :: "score_key \<Rightarrow> (score_key \<times> real) list \<Rightarrow> real list" where
  "pick key cs = map snd (filter (\<lambda>kv. fst kv = key) cs)"

definition spec_contributions :: "py_value dict \<Rightarrow> score_key \<Rightarrow> real list" where
  "spec_contributions d key = concat (map (\<lambda>persona. pick key (routed_for d persona)) persona_order)"

definition spec_mean :: "real list \<Rightarrow> real" where
  "spec_mean xs = (if xs = [] then 0 else sum_list xs / real (length xs))"

text \<open>Adding a list of routed contributions to the running sums and counts.\<close>

definition add_contribs ::
  "(score_key \<times> real) list \<Rightarrow> scores \<times> score_counts \<Rightarrow> scores \<times> score_counts" where
  "add_contribs cs acc =
     (\<lambda>k. fst acc k + sum_list (pick k cs), \<lambda>k. snd acc k + length (pick k cs))"

text \<open>
  The insight list and the risk list of a present signal, and their concatenation over the
  personas in registration order.
\<close>

fun spec_lists :: "string \<Rightarrow> py_value \<Rightarrow> string list \<times> string list" where
  "spec_lists persona (SamAltmanSignal a b c r i k) =
     (if persona = ''Sam Altman'' then (i, k) else ([], []))"
| "spec_lists persona (DemisHassabisSignal a b c r i k) =
     (if persona = ''Demis Hassabis'' then (i, k) else ([], []))"
| "spec_lists persona (ElonMuskSignal a b c r i k) =
     (if persona = ''Elon Musk'' then (i, k) else ([], []))"
| "spec_lists persona (AdamDAngeloSignal a b c r i k) =
     (if persona = ''Adam D'Angelo'' then (i, k) else ([], []))"
| "spec_lists persona (DanielGrossSignal a b c r i k) =
     (if persona = ''Daniel Gross'' then (i, k) else ([], []))"
| "spec_lists persona (SebastianThrunSignal a b c r i k) =
     (if persona = ''Sebastian Thrun'' then (i, k) else ([], []))"
| "spec_lists persona (EmadMostaqueSignal a b c r i k) =
     (if persona = ''Emad Mostaque'' then (i, k) else ([], []))"
| "spec_lists persona (ClementDelangueSignal a b c r i k) =
     (if persona = ''Clement Delangue'' then (i, k) else ([], []))"
| "spec_lists persona (ProjectRecommendationObj advice) = ([], [])"
| "spec_lists persona PyNone = ([], [])"

definition lists_for :: "py_value dict \<Rightarrow> string \<Rightarrow> string list \<times> string list" where
  "lists_for d persona =
     (case dict_get d persona of None \<Rightarrow> ([], []) | Some v \<Rightarrow> spec_lists persona v)"

definition spec_key_insights :: "py_value dict \<Rightarrow> string list" where
  "spec_key_insights d = concat (map (\<lambda>persona. fst (lists_for d persona)) persona_order)"

definition spec_potential_risks :: "py_value dict \<Rightarrow> string list" where
  "spec_potential_risks d = concat (map (\<lambda>persona. snd (lists_for d persona)) persona_order)"

text \<open>
  A run, as the specification sees it: the personas that are run are the registered ones
  that were selected, an agent function that raises counts as one that returns \<open>None\<close>,
  and the present signals are the slots that are not \<open>None\<close>.
\<close>

definition is_selected :: "string list option \<Rightarrow> string \<Rightarrow> bool" where
  "is_selected selected_agents persona =
     (persona \<in> set agent_names \<and>
      (case selected_agents of None \<Rightarrow> True | Some sel \<Rightarrow> persona \<in> set sel))"

definition never_raising :: "(string \<Rightarrow> agent_func) \<Rightarrow> string \<Rightarrow> agent_func" where
  "never_raising agent_of persona state =
     (case agent_of persona state of Inl e \<Rightarrow> Inr PyNone | Inr v \<Rightarrow> Inr v)"

definition present_only :: "py_value dict \<Rightarrow> py_value dict" where
  "present_only d = filter (\<lambda>entry. snd entry \<noteq> PyNone) d"


text \<open>
  The registry: a file system in which a path holds a given JSON document, and the
  selectors that the operations can reach (the registry holds the built-in ids in their
  order and the path of the configuration file is not empty).
\<close>

definition store_document :: "filesystem \<Rightarrow> string \<Rightarrow> json \<Rightarrow> filesystem" where
  "store_document fs path doc = fs\<lparr> files := (files fs)(path := Some (Document doc)) \<rparr>"

definition well_formed :: "AgentSelector \<Rightarrow> bool" where
  "well_formed sel = (map fst (agents sel) = map fst default_agents \<and> config_file sel \<noteq> [])"

text \<open>
  The span between the first \<open>opener\<close> and the last \<open>closer\<close> after it, both included, and
  whether there is one.
\<close>

definition from_first :: "char \<Rightarrow> string \<Rightarrow> string" where
  "from_first opener s = dropWhile (\<lambda>c. c \<noteq> opener) s"

definition upto_last :: "char \<Rightarrow> string \<Rightarrow> string" where
  "upto_last closer s = rev (dropWhile (\<lambda>c. c \<noteq> closer) (rev s))"

definition has_span :: "char \<Rightarrow> char \<Rightarrow> string \<Rightarrow> bool" where
  "has_span opener closer s = (closer \<in> set (from_first opener s))"

definition first_to_last :: "char \<Rightarrow> char \<Rightarrow> string \<Rightarrow> string" where
  "first_to_last opener closer s = upto_last closer (from_first opener s)"

text \<open>
  The specification's extraction: the first balanced \<open>{...}\<close> or \<open>[...]\<close> span. Scanning from an
  opening bracket, \<open>balanced_prefix\<close> keeps the stack of closing brackets still expected and
  returns the text up to the bracket that empties it.
\<close>

fun balanced_prefix :: "string \<Rightarrow> string \<Rightarrow> string \<Rightarrow> string option" where
  "balanced_prefix expected seen [] = None"
| "balanced_prefix expected seen (c # cs) =
     (if c = CHR ''{'' then balanced_prefix (CHR ''}'' # expected) (c # seen) cs
      else if c = CHR ''['' then balanced_prefix (CHR '']'' # expected) (c # seen) cs
      else if c = CHR ''}'' \<or> c = CHR '']'' then
        (case expected of
           [] \<Rightarrow> None
         | e # es \<Rightarrow>
             (if c \<noteq> e then None
              else if es = [] then Some (rev (c # seen))
              else balanced_prefix es (c # seen) cs))
      else balanced_prefix expected (c # seen) cs)"

fun spec_first_balanced_span :: "string \<Rightarrow> string option" where
  "spec_first_balanced_span [] = None"
| "spec_first_balanced_span (c # cs) =
     (if c = CHR ''{'' \<or> c = CHR ''[''
      then (case balanced_prefix [] [] (c # cs) of
              Some found \<Rightarrow> Some found
            | None \<Rightarrow> spec_first_balanced_span cs)
      else spec_first_balanced_span cs)"

section \<open>Example inputs\<close>

text \<open>
  A run in which five personas were selected: three scoring signals are present, the slot
  of Elon Musk holds \<open>None\<close>, and the model's reply to the recommendation prompt is fenced.
\<close>

definition example_insights :: "py_value dict" where
  "example_insights =
     [(''Sam Altman'', SamAltmanSignal 0.8 0.6 0.4 ''r1'' [''a1''] [''x1'']),
      (''Demis Hassabis'', DemisHassabisSignal 0.3 0.5 0.7 ''r2'' [''b1'', ''b2''] [''y1'']),
      (''Elon Musk'', PyNone),
      (''Sebastian Thrun'', SebastianThrunSignal 0.1 0.2 0.9 ''r3'' [''c1''] []),
      (''Clement Delangue'', ClementDelangueSignal 0.5 0.2 1 ''r4'' [''d1''] [''z1''])]"

definition example_llm :: llm where
  "example_llm = (\<lambda>p. Inr (ReplyText ''```json ok```''))"

text \<open>The same run with another signal in the slot of Sebastian Thrun.\<close>

definition example_insights_other_thrun :: "py_value dict" where
  "example_insights_other_thrun =
     [(''Sam Altman'', SamAltmanSignal 0.8 0.6 0.4 ''r1'' [''a1''] [''x1'']),
      (''Demis Hassabis'', DemisHassabisSignal 0.3 0.5 0.7 ''r2'' [''b1'', ''b2''] [''y1'']),
      (''Elon Musk'', PyNone),
      (''Sebastian Thrun'', SebastianThrunSignal 0.1 0.2 0.1 ''r5'' [''c2''] []),
      (''Clement Delangue'', ClementDelangueSignal 0.5 0.2 1 ''r4'' [''d1''] [''z1''])]"


text \<open>
  Two sets of agent functions. In the first Sam Altman's function raises and Elon Musk's
  returns a signal; in the second Sam Altman's returns a signal and the Project Advisor's
  returns a recommendation. A reply of the model without a code fence.
\<close>

definition example_agent_of :: "string \<Rightarrow> agent_func" where
  "example_agent_of persona state =
     (if persona = ''Sam Altman'' then Inl (OtherException ''ConnectionError'')
      else if persona = ''Elon Musk''
        then Inr (ElonMuskSignal 0.6 0.2 1 ''r'' [''e1''] [''w1''])
      else Inl ValueError)"

definition example_advised_agent_of :: "string \<Rightarrow> agent_func" where
  "example_advised_agent_of persona state =
     (if persona = ''Sam Altman''
        then Inr (SamAltmanSignal 0.5 0.5 0.5 ''r'' [''Default insight''] [''Default risk''])
      else if persona = ''Project Advisor''
        then Inr (ProjectRecommendationObj fallback_recommendation)
      else Inl ValueError)"

definition unfenced_llm :: llm where
  "unfenced_llm = (\<lambda>p. Inr (ReplyText ''Validate demand with ten pilot customers.''))"

text \<open>What the run of the first set on Sam Altman and Elon Musk gives.\<close>

definition example_failed_insights :: "py_value dict" where
  "example_failed_insights =
     [(''Sam Altman'', PyNone),
      (''Elon Musk'', ElonMuskSignal 0.6 0.2 1 ''r'' [''e1''] [''w1''])]"

definition example_failed_evaluation :: ProductEvaluation where
  "example_failed_evaluation =
     \<lparr> product_idea = ''idea'', overall_score = 3/10, market_potential = 1/5,
       technical_feasibility = 1, innovation_potential = 0,
       key_insights = [''e1''], potential_risks = [''w1''],
       agent_insights = example_failed_insights,
       recommendations = fallback_recommendations,
       project_recommendation = PyNone \<rparr>"




text \<open>
  A built-in agent with the two settings of a saved one; a file system with no file, in
  which every path is writable; two stored documents.
\<close>

definition restored :: "AgentConfig \<Rightarrow> AgentConfig \<Rightarrow> AgentConfig" where
  "restored saved base = base\<lparr> enabled := enabled saved, priority := priority saved \<rparr>"

definition empty_fs :: filesystem where
  "empty_fs = \<lparr> files = (\<lambda>path. None), writable = (\<lambda>path. True) \<rparr>"

definition example_stored_config :: json where
  "example_stored_config =
     JDict [(''elon_musk'', JDict [(''enabled'', JBool False), (''priority'', JInt 42)])]"

definition example_disabling_config :: json where
  "example_disabling_config =
     JDict [(''project_advisor'', JDict [(''enabled'', JBool False), (''priority'', JInt 9)])]"

text \<open>
  A parser that agrees with \<open>json.loads\<close> on the texts that the examples hand to it: \<open>{}\<close>
  parses to the empty object, and \<open>{} {}\<close>, which has text after a complete value, is
  rejected.
\<close>

definition example_loads :: "string \<Rightarrow> exception + json" where
  "example_loads s = (if s = ''{}'' then Inr (JDict []) else Inl JSONDecodeError)"



section \<open>The aggregation computes means\<close>

text \<open>
  Each \<open>isinstance\<close> block adds to the sums and counts exactly what the routing table gives
  for its persona, so after the eight blocks every bucket holds the sum and the number of
  its contributions.
\<close>

lemma process_sam_altman_routed:
  "process_sam_altman d acc = add_contribs (routed_for d ''Sam Altman'') acc"
proof (cases "dict_get d ''Sam Altman''")
  case None
  then show ?thesis
    by (simp add: process_sam_altman_def add_contribs_def routed_for_def pick_def)
next
  case (Some v)
  then show ?thesis
    by (cases v)
      (auto simp: process_sam_altman_def add_contribs_def routed_for_def pick_def fun_eq_iff
        scores_add_def counts_inc_def)
qed

lemma collect_sam_altman_lists:
  "collect_sam_altman d acc =
     (fst acc @ fst (lists_for d ''Sam Altman''), snd acc @ snd (lists_for d ''Sam Altman''))"
proof (cases "dict_get d ''Sam Altman''")
  case None
  then show ?thesis
    by (simp add: collect_sam_altman_def lists_for_def)
next
  case (Some v)
  then show ?thesis
    by (cases v) (simp_all add: collect_sam_altman_def lists_for_def)
qed

lemma process_demis_hassabis_routed:
  "process_demis_hassabis d acc = add_contribs (routed_for d ''Demis Hassabis'') acc"
proof (cases "dict_get d ''Demis Hassabis''")
  case None
  then show ?thesis
    by (simp add: process_demis_hassabis_def add_contribs_def routed_for_def pick_def)
next
  case (Some v)
  then show ?thesis
    by (cases v)
      (auto simp: process_demis_hassabis_def add_contribs_def routed_for_def pick_def fun_eq_iff
        scores_add_def counts_inc_def)
qed

lemma collect_demis_hassabis_lists:
  "collect_demis_hassabis d acc =
     (fst acc @ fst (lists_for d ''Demis Hassabis''), snd acc @ snd (lists_for d ''Demis Hassabis''))"
proof (cases "dict_get d ''Demis Hassabis''")
  case None
  then show ?thesis
    by (simp add: collect_demis_hassabis_def lists_for_def)
next
  case (Some v)
  then show ?thesis
    by (cases v) (simp_all add: collect_demis_hassabis_def lists_for_def)
qed

lemma process_elon_musk_routed:
  "process_elon_musk d acc = add_contribs (routed_for d ''Elon Musk'') acc"
proof (cases "dict_get d ''Elon Musk''")
  case None
  then show ?thesis
    by (simp add: process_elon_musk_def add_contribs_def routed_for_def pick_def)
next
  case (Some v)
  then show ?thesis
    by (cases v)
      (auto simp: process_elon_musk_def add_contribs_def routed_for_def pick_def fun_eq_iff
        scores_add_def counts_inc_def)
qed

lemma collect_elon_musk_lists:
  "collect_elon_musk d acc =
     (fst acc @ fst (lists_for d ''Elon Musk''), snd acc @ snd (lists_for d ''Elon Musk''))"
proof (cases "dict_get d ''Elon Musk''")
  case None
  then show ?thesis
    by (simp add: collect_elon_musk_def lists_for_def)
next
  case (Some v)
  then show ?thesis
    by (cases v) (simp_all add: collect_elon_musk_def lists_for_def)
qed

lemma process_adam_dangelo_routed:
  "process_adam_dangelo d acc = add_contribs (routed_for d ''Adam D'Angelo'') acc"
proof (cases "dict_get d ''Adam D'Angelo''")
  case None
  then show ?thesis
    by (simp add: process_adam_dangelo_def add_contribs_def routed_for_def pick_def)
next
  case (Some v)
  then show ?thesis
    by (cases v)
      (auto simp: process_adam_dangelo_def add_contribs_def routed_for_def pick_def fun_eq_iff
        scores_add_def counts_inc_def)
qed

lemma collect_adam_dangelo_lists:
  "collect_adam_dangelo d acc =
     (fst acc @ fst (lists_for d ''Adam D'Angelo''), snd acc @ snd (lists_for d ''Adam D'Angelo''))"
proof (cases "dict_get d ''Adam D'Angelo''")
  case None
  then show ?thesis
    by (simp add: collect_adam_dangelo_def lists_for_def)
next
  case (Some v)
  then show ?thesis
    by (cases v) (simp_all add: collect_adam_dangelo_def lists_for_def)
qed

lemma process_daniel_gross_routed:
  "process_daniel_gross d acc = add_contribs (routed_for d ''Daniel Gross'') acc"
proof (cases "dict_get d ''Daniel Gross''")
  case None
  then show ?thesis
    by (simp add: process_daniel_gross_def add_contribs_def routed_for_def pick_def)
next
  case (Some v)
  then show ?thesis
    by (cases v)
      (auto simp: process_daniel_gross_def add_contribs_def routed_for_def pick_def fun_eq_iff
        scores_add_def counts_inc_def)
qed

lemma collect_daniel_gross_lists:
  "collect_daniel_gross d acc =
     (fst acc @ fst (lists_for d ''Daniel Gross''), snd acc @ snd (lists_for d ''Daniel Gross''))"
proof (cases "dict_get d ''Daniel Gross''")
  case None
  then show ?thesis
    by (simp add: collect_daniel_gross_def lists_for_def)
next
  case (Some v)
  then show ?thesis
    by (cases v) (simp_all add: collect_daniel_gross_def lists_for_def)
qed

lemma process_sebastian_thrun_routed:
  "process_sebastian_thrun d acc = add_contribs (routed_for d ''Sebastian Thrun'') acc"
proof (cases "dict_get d ''Sebastian Thrun''")
  case None
  then show ?thesis
    by (simp add: process_sebastian_thrun_def add_contribs_def routed_for_def pick_def)
next
  case (Some v)
  then show ?thesis
    by (cases v)
      (auto simp: process_sebastian_thrun_def add_contribs_def routed_for_def pick_def fun_eq_iff
        scores_add_def counts_inc_def)
qed

lemma collect_sebastian_thrun_lists:
  "collect_sebastian_thrun d acc =
     (fst acc @ fst (lists_for d ''Sebastian Thrun''), snd acc @ snd (lists_for d ''Sebastian Thrun''))"
proof (cases "dict_get d ''Sebastian Thrun''")
  case None
  then show ?thesis
    by (simp add: collect_sebastian_thrun_def lists_for_def)
next
  case (Some v)
  then show ?thesis
    by (cases v) (simp_all add: collect_sebastian_thrun_def lists_for_def)
qed

lemma process_emad_mostaque_routed:
  "process_emad_mostaque d acc = add_contribs (routed_for d ''Emad Mostaque'') acc"
proof (cases "dict_get d ''Emad Mostaque''")
  case None
  then show ?thesis
    by (simp add: process_emad_mostaque_def add_contribs_def routed_for_def pick_def)
next
  case (Some v)
  then show ?thesis
    by (cases v)
      (auto simp: process_emad_mostaque_def add_contribs_def routed_for_def pick_def fun_eq_iff
        scores_add_def counts_inc_def)
qed

lemma collect_emad_mostaque_lists:
  "collect_emad_mostaque d acc =
     (fst acc @ fst (lists_for d ''Emad Mostaque''), snd acc @ snd (lists_for d ''Emad Mostaque''))"
proof (cases "dict_get d ''Emad Mostaque''")
  case None
  then show ?thesis
    by (simp add: collect_emad_mostaque_def lists_for_def)
next
  case (Some v)
  then show ?thesis
    by (cases v) (simp_all add: collect_emad_mostaque_def lists_for_def)
qed

lemma process_clement_delangue_routed:
  "process_clement_delangue d acc = add_contribs (routed_for d ''Clement Delangue'') acc"
proof (cases "dict_get d ''Clement Delangue''")
  case None
  then show ?thesis
    by (simp add: process_clement_delangue_def add_contribs_def routed_for_def pick_def)
next
  case (Some v)
  then show ?thesis
    by (cases v)
      (auto simp: process_clement_delangue_def add_contribs_def routed_for_def pick_def fun_eq_iff
        scores_add_def counts_inc_def)
qed

lemma collect_clement_delangue_lists:
  "collect_clement_delangue d acc =
     (fst acc @ fst (lists_for d ''Clement Delangue''), snd acc @ snd (lists_for d ''Clement Delangue''))"
proof (cases "dict_get d ''Clement Delangue''")
  case None
  then show ?thesis
    by (simp add: collect_clement_delangue_def lists_for_def)
next
  case (Some v)
  then show ?thesis
    by (cases v) (simp_all add: collect_clement_delangue_def lists_for_def)
qed


lemma add_contribs_append:
  "add_contribs cs2 (add_contribs cs1 acc) = add_contribs (cs1 @ cs2) acc"
  by (simp add: add_contribs_def pick_def fun_eq_iff add.assoc)

lemma add_contribs_nil: "add_contribs [] acc = acc"
  by (simp add: add_contribs_def pick_def)

lemma accumulate_scores_routed:
  "accumulate_scores d =
     add_contribs (concat (map (routed_for d) persona_order)) (initial_scores, initial_score_counts)"
  by (simp add: accumulate_scores_def persona_order_def add_contribs_append
      process_sam_altman_routed process_demis_hassabis_routed process_elon_musk_routed
      process_adam_dangelo_routed process_daniel_gross_routed process_sebastian_thrun_routed
      process_emad_mostaque_routed process_clement_delangue_routed)

lemma pick_concat: "pick key (concat xss) = concat (map (pick key) xss)"
  by (induction xss) (simp_all add: pick_def)

lemma spec_contributions_pick:
  "spec_contributions d key = pick key (concat (map (routed_for d) persona_order))"
  by (simp add: spec_contributions_def pick_concat comp_def)

lemma averaged_scores_mean: "averaged_scores d key = spec_mean (spec_contributions d key)"
  by (simp add: averaged_scores_def calculate_averages_def accumulate_scores_routed
      spec_contributions_pick add_contribs_def initial_scores_def initial_score_counts_def
      spec_mean_def)

lemma overall_six:
  "calculate_overall_score s =
     (s Opportunity_score + s Market_potential + s Technical_feasibility
      + s Scientific_breakthrough_potential + s Ai_infrastructure + s Innovation_potential) / 6"
  by (simp add: calculate_overall_score_def key_metrics_def py_sum_def)

lemma collect_insights_spec:
  "collect_insights d = (spec_key_insights d, spec_potential_risks d)"
  by (simp add: collect_insights_def spec_key_insights_def spec_potential_risks_def
      persona_order_def
      collect_sam_altman_lists collect_demis_hassabis_lists collect_elon_musk_lists
      collect_adam_dangelo_lists collect_daniel_gross_lists collect_sebastian_thrun_lists
      collect_emad_mostaque_lists collect_clement_delangue_lists)

lemma headline_fields:
  assumes "combine_insights call_llm idea d = Inr ev"
  shows "overall_score ev = calculate_overall_score (averaged_scores d)
    \<and> market_potential ev = averaged_scores d Market_potential
    \<and> technical_feasibility ev = averaged_scores d Technical_feasibility
    \<and> innovation_potential ev = averaged_scores d Scientific_breakthrough_potential
    \<and> key_insights ev = fst (collect_insights d)
    \<and> potential_risks ev = snd (collect_insights d)
    \<and> agent_insights ev = d"
  using assms
  by (auto simp: combine_insights_def Let_def split: option.splits py_value.splits sum.splits)

text \<open>
  Claim C3. For every dictionary of persona signals, the final value of each score bucket
  is the arithmetic mean of the contributions routed into it, and 0 for a bucket that
  received none; the overall score is the unweighted mean of exactly the six buckets
  opportunity, market potential, technical feasibility, scientific breakthrough potential,
  ai infrastructure and innovation potential. The same holds of the fields of the
  evaluation that \<open>_combine_insights\<close> returns. (Floats are exact reals here.)
\<close>

theorem bucket_is_mean_of_contributions:
  "averaged_scores d key = spec_mean (spec_contributions d key)
   \<and> calculate_overall_score (averaged_scores d) =
       spec_mean [spec_mean (spec_contributions d Opportunity_score),
                  spec_mean (spec_contributions d Market_potential),
                  spec_mean (spec_contributions d Technical_feasibility),
                  spec_mean (spec_contributions d Scientific_breakthrough_potential),
                  spec_mean (spec_contributions d Ai_infrastructure),
                  spec_mean (spec_contributions d Innovation_potential)]
   \<and> (combine_insights call_llm idea d = Inr ev \<longrightarrow>
        overall_score ev =
          spec_mean [spec_mean (spec_contributions d Opportunity_score),
                     spec_mean (spec_contributions d Market_potential),
                     spec_mean (spec_contributions d Technical_feasibility),
                     spec_mean (spec_contributions d Scientific_breakthrough_potential),
                     spec_mean (spec_contributions d Ai_infrastructure),
                     spec_mean (spec_contributions d Innovation_potential)]
        \<and> market_potential ev = spec_mean (spec_contributions d Market_potential)
        \<and> technical_feasibility ev = spec_mean (spec_contributions d Technical_feasibility))"
proof -
  have six: "calculate_overall_score (averaged_scores d) =
       spec_mean [spec_mean (spec_contributions d Opportunity_score),
                  spec_mean (spec_contributions d Market_potential),
                  spec_mean (spec_contributions d Technical_feasibility),
                  spec_mean (spec_contributions d Scientific_breakthrough_potential),
                  spec_mean (spec_contributions d Ai_infrastructure),
                  spec_mean (spec_contributions d Innovation_potential)]"
    by (simp add: overall_six averaged_scores_mean) (simp add: spec_mean_def)
  show ?thesis
    using six headline_fields [of call_llm idea d ev]
    by (simp add: averaged_scores_mean)
qed

lemma example_contributions:
  "spec_contributions example_insights Opportunity_score = [4/5]"
  "spec_contributions example_insights Market_potential = [3/5, 1/5]"
  "spec_contributions example_insights Technical_feasibility = [2/5, 1]"
  "spec_contributions example_insights Scientific_breakthrough_potential = [3/10]"
  "spec_contributions example_insights Ai_infrastructure = [1/2]"
  "spec_contributions example_insights Innovation_potential = [9/10]"
  by (simp_all add: spec_contributions_def persona_order_def routed_for_def dict_get_def
      example_insights_def pick_def)

lemma example_run:
  "\<exists>ev. combine_insights example_llm ''idea'' example_insights = Inr ev"
  by (simp add: combine_insights_def generate_recommendations_def example_llm_def
      example_insights_def dict_get_def str_split_def fence_def Let_def)

text \<open>
  The example run: the technical-feasibility bucket receives 0.4 and 1.0 and ends at 0.7,
  and the overall score is 3.6 / 6.
\<close>

theorem bucket_is_mean_of_contributions_witness:
  "averaged_scores example_insights Technical_feasibility = 7/10
   \<and> (case combine_insights example_llm ''idea'' example_insights of
         Inl e \<Rightarrow> False
       | Inr ev \<Rightarrow> overall_score ev = 3/5 \<and> market_potential ev = 2/5
                    \<and> technical_feasibility ev = 7/10)"
proof -
  obtain ev where ev: "combine_insights example_llm ''idea'' example_insights = Inr ev"
    using example_run by blast
  show ?thesis
    using bucket_is_mean_of_contributions
      [of example_insights Technical_feasibility example_llm "''idea''" ev] ev
    by (simp add: example_contributions spec_mean_def)
qed

section \<open>The headline fields\<close>

text \<open>
  Only Demis Hassabis's signal is routed into the scientific-breakthrough bucket and only
  Sebastian Thrun's into the innovation bucket; Thrun's signal reaches no bucket but his
  own three.
\<close>

lemma pick_routed_breakthrough:
  "persona \<noteq> ''Demis Hassabis'' \<Longrightarrow>
     pick Scientific_breakthrough_potential (routed_for d persona) = []"
proof (cases "dict_get d persona")
  case None
  then show ?thesis by (simp add: routed_for_def pick_def)
next
  case (Some v)
  assume "persona \<noteq> ''Demis Hassabis''"
  with Some show ?thesis by (cases v) (simp_all add: routed_for_def pick_def)
qed

lemma pick_routed_innovation:
  "persona \<noteq> ''Sebastian Thrun'' \<Longrightarrow> pick Innovation_potential (routed_for d persona) = []"
proof (cases "dict_get d persona")
  case None
  then show ?thesis by (simp add: routed_for_def pick_def)
next
  case (Some v)
  assume "persona \<noteq> ''Sebastian Thrun''"
  with Some show ?thesis by (cases v) (simp_all add: routed_for_def pick_def)
qed

lemma pick_routed_thrun:
  "key \<noteq> Autonomous_systems_score \<Longrightarrow> key \<noteq> Educational_impact \<Longrightarrow>
   key \<noteq> Innovation_potential \<Longrightarrow> pick key (routed_for d ''Sebastian Thrun'') = []"
proof (cases "dict_get d ''Sebastian Thrun''")
  case None
  then show ?thesis by (simp add: routed_for_def pick_def)
next
  case (Some v)
  assume "key \<noteq> Autonomous_systems_score" "key \<noteq> Educational_impact"
    "key \<noteq> Innovation_potential"
  with Some show ?thesis by (cases v) (auto simp: routed_for_def pick_def)
qed

lemma breakthrough_bucket:
  "averaged_scores d Scientific_breakthrough_potential =
     (case dict_get d ''Demis Hassabis'' of
        Some (DemisHassabisSignal breakthrough advancement feasibility r i k) \<Rightarrow> breakthrough
      | _ \<Rightarrow> 0)"
proof -
  have "spec_contributions d Scientific_breakthrough_potential =
          pick Scientific_breakthrough_potential (routed_for d ''Demis Hassabis'')"
    by (simp add: spec_contributions_def persona_order_def pick_routed_breakthrough)
  then show ?thesis
    by (simp add: averaged_scores_mean spec_mean_def routed_for_def pick_def
        split: option.splits py_value.splits)
qed

lemma innovation_bucket:
  "averaged_scores d Innovation_potential =
     (case dict_get d ''Sebastian Thrun'' of
        Some (SebastianThrunSignal autonomous educational innovation r i k) \<Rightarrow> innovation
      | _ \<Rightarrow> 0)"
proof -
  have "spec_contributions d Innovation_potential =
          pick Innovation_potential (routed_for d ''Sebastian Thrun'')"
    by (simp add: spec_contributions_def persona_order_def pick_routed_innovation)
  then show ?thesis
    by (simp add: averaged_scores_mean spec_mean_def routed_for_def pick_def
        split: option.splits py_value.splits)
qed

lemma bucket_without_thrun:
  assumes same: "\<And>persona. persona \<noteq> ''Sebastian Thrun'' \<Longrightarrow> dict_get d' persona = dict_get d persona"
    and key: "key \<noteq> Autonomous_systems_score" "key \<noteq> Educational_impact"
      "key \<noteq> Innovation_potential"
  shows "averaged_scores d' key = averaged_scores d key"
proof -
  have "routed_for d' persona = routed_for d persona" if "persona \<noteq> ''Sebastian Thrun''"
    for persona
    using same [OF that] by (simp add: routed_for_def)
  then have "spec_contributions d' key = spec_contributions d key"
    by (simp add: spec_contributions_def persona_order_def pick_routed_thrun [OF key])
  then show ?thesis
    by (simp add: averaged_scores_mean)
qed

text \<open>
  Claim C9. The field \<open>innovation_potential\<close> of the returned evaluation is the averaged
  \<open>scientific_breakthrough_potential\<close> bucket, which is the score of Demis Hassabis's signal
  (0 without one), and not the \<open>innovation_potential\<close> bucket, which is the score of Sebastian
  Thrun's signal: that bucket enters the overall score only. The three headline fields
  \<open>market_potential\<close>, \<open>technical_feasibility\<close> and \<open>innovation_potential\<close> are the same for
  two runs that differ in the slot of Sebastian Thrun alone.
\<close>

theorem innovation_field_is_breakthrough_bucket:
  "(combine_insights call_llm idea d = Inr ev \<longrightarrow>
      innovation_potential ev = averaged_scores d Scientific_breakthrough_potential
      \<and> market_potential ev = averaged_scores d Market_potential
      \<and> technical_feasibility ev = averaged_scores d Technical_feasibility
      \<and> overall_score ev =
          (averaged_scores d Opportunity_score + averaged_scores d Market_potential
           + averaged_scores d Technical_feasibility
           + averaged_scores d Scientific_breakthrough_potential
           + averaged_scores d Ai_infrastructure + averaged_scores d Innovation_potential) / 6)
   \<and> averaged_scores d Scientific_breakthrough_potential =
       (case dict_get d ''Demis Hassabis'' of
          Some (DemisHassabisSignal breakthrough advancement feasibility r i k) \<Rightarrow> breakthrough
        | _ \<Rightarrow> 0)
   \<and> averaged_scores d Innovation_potential =
       (case dict_get d ''Sebastian Thrun'' of
          Some (SebastianThrunSignal autonomous educational innovation r i k) \<Rightarrow> innovation
        | _ \<Rightarrow> 0)
   \<and> (combine_insights call_llm idea d = Inr ev \<and> combine_insights call_llm' idea' d' = Inr ev'
        \<and> (\<forall>persona. persona \<noteq> ''Sebastian Thrun'' \<longrightarrow> dict_get d' persona = dict_get d persona)
       \<longrightarrow> innovation_potential ev' = innovation_potential ev
           \<and> market_potential ev' = market_potential ev
           \<and> technical_feasibility ev' = technical_feasibility ev)"
proof -
  have fields: "innovation_potential ev = averaged_scores d Scientific_breakthrough_potential
      \<and> market_potential ev = averaged_scores d Market_potential
      \<and> technical_feasibility ev = averaged_scores d Technical_feasibility
      \<and> overall_score ev =
          (averaged_scores d Opportunity_score + averaged_scores d Market_potential
           + averaged_scores d Technical_feasibility
           + averaged_scores d Scientific_breakthrough_potential
           + averaged_scores d Ai_infrastructure + averaged_scores d Innovation_potential) / 6"
    if "combine_insights call_llm idea d = Inr ev"
    using headline_fields [OF that] by (simp add: overall_six)
  have independent: "innovation_potential ev' = innovation_potential ev
           \<and> market_potential ev' = market_potential ev
           \<and> technical_feasibility ev' = technical_feasibility ev"
    if run: "combine_insights call_llm idea d = Inr ev"
      and run': "combine_insights call_llm' idea' d' = Inr ev'"
      and same: "\<forall>persona. persona \<noteq> ''Sebastian Thrun'' \<longrightarrow> dict_get d' persona = dict_get d persona"
  proof -
    have "averaged_scores d' key = averaged_scores d key"
      if "key \<noteq> Autonomous_systems_score" "key \<noteq> Educational_impact"
        "key \<noteq> Innovation_potential" for key
      using same that by (intro bucket_without_thrun) auto
    then show ?thesis
      using headline_fields [OF run] headline_fields [OF run'] by simp
  qed
  show ?thesis
    using fields independent breakthrough_bucket [of d] innovation_bucket [of d] by blast
qed

lemma example_run_other_thrun:
  "\<exists>ev. combine_insights example_llm ''idea'' example_insights_other_thrun = Inr ev"
  by (simp add: combine_insights_def generate_recommendations_def example_llm_def
      example_insights_other_thrun_def dict_get_def str_split_def fence_def Let_def)

lemma example_same_but_thrun:
  "\<forall>persona. persona \<noteq> ''Sebastian Thrun'' \<longrightarrow>
     dict_get example_insights_other_thrun persona = dict_get example_insights persona"
  by (simp add: dict_get_def example_insights_def example_insights_other_thrun_def)

text \<open>
  In the example run the innovation bucket is 0.9 and the field \<open>innovation_potential\<close> is
  0.3, the breakthrough score; another signal of Sebastian Thrun leaves the three fields
  as they are.
\<close>

theorem innovation_field_is_breakthrough_bucket_witness:
  "(case combine_insights example_llm ''idea'' example_insights of
      Inl e \<Rightarrow> False
    | Inr ev \<Rightarrow> innovation_potential ev = 3/10 \<and> market_potential ev = 2/5
                 \<and> technical_feasibility ev = 7/10 \<and> overall_score ev = 3/5)
   \<and> averaged_scores example_insights Scientific_breakthrough_potential = 3/10
   \<and> averaged_scores example_insights Innovation_potential = 9/10
   \<and> (case combine_insights example_llm ''idea'' example_insights_other_thrun of
        Inl e \<Rightarrow> False
      | Inr ev' \<Rightarrow> innovation_potential ev' = 3/10 \<and> market_potential ev' = 2/5
                   \<and> technical_feasibility ev' = 7/10)"
proof -
  obtain ev where ev: "combine_insights example_llm ''idea'' example_insights = Inr ev"
    using example_run by blast
  obtain ev' where ev':
    "combine_insights example_llm ''idea'' example_insights_other_thrun = Inr ev'"
    using example_run_other_thrun by blast
  show ?thesis
    using innovation_field_is_breakthrough_bucket
      [of example_llm "''idea''" example_insights ev example_llm "''idea''"
        example_insights_other_thrun ev']
      ev ev' example_same_but_thrun
    by (simp add: averaged_scores_mean example_contributions spec_mean_def)
qed

section \<open>Order independence\<close>






section \<open>The run over the selected agents\<close>

text \<open>
  The loop fills one slot for each selected agent, whatever the others did, and a slot
  that holds \<open>None\<close> routes nothing into any bucket.
\<close>

lemma dict_get_dict_set:
  "dict_get (dict_set d k v) k' = (if k' = k then Some v else dict_get d k')"
  by (induction d) (auto simp: dict_get_def)

lemma keys_dict_set:
  "map fst (dict_set d k v) = (if k \<in> set (map fst d) then map fst d else map fst d @ [k])"
proof (induction d)
  case Nil
  then show ?case by simp
next
  case (Cons entry d)
  then show ?case by (cases entry) force
qed

lemma distinct_dict_set: "distinct (map fst d) \<Longrightarrow> distinct (map fst (dict_set d k v))"
  by (simp add: keys_dict_set)

lemma distinct_run_agents:
  "distinct (map fst acc) \<Longrightarrow> distinct (map fst (run_agents ags state acc))"
  by (induction ags state acc rule: run_agents.induct) (simp_all add: distinct_dict_set)

lemma dict_get_run_agents:
  "distinct (map fst ags) \<Longrightarrow>
   dict_get (run_agents ags state acc) persona =
     (case map_of ags persona of
        None \<Rightarrow> dict_get acc persona
      | Some f \<Rightarrow> Some (case f state of Inl e \<Rightarrow> PyNone | Inr v \<Rightarrow> v))"
proof (induction ags state acc rule: run_agents.induct)
  case (1 state insights)
  then show ?case by simp
next
  case (2 agent_name agent_func rest state insights)
  then have fresh: "map_of rest agent_name = None"
    by (simp add: map_of_eq_None_iff)
  from 2 have "distinct (map fst rest)" by simp
  with 2 fresh show ?case
    by (simp add: dict_get_dict_set split: option.splits)
qed

lemma run_agents_never_raising:
  "run_agents (map (\<lambda>entry. (fst entry, \<lambda>state. case snd entry state of
                                   Inl e \<Rightarrow> Inr PyNone | Inr v \<Rightarrow> Inr v)) ags) state acc =
   run_agents ags state acc"
  by (induction ags state acc rule: run_agents.induct) (auto split: sum.splits)

lemma select_agents_never_raising:
  "select_agents (never_raising agent_of) selected =
     map (\<lambda>entry. (fst entry, \<lambda>state. case snd entry state of
                                   Inl e \<Rightarrow> Inr PyNone | Inr v \<Rightarrow> Inr v))
       (select_agents agent_of selected)"
  by (cases selected)
    (simp_all add: select_agents_def all_agents_def never_raising_def filter_map comp_def
      fun_eq_iff)

lemma distinct_select_agents: "distinct (map fst (select_agents agent_of selected))"
proof -
  have "distinct (map fst (all_agents agent_of))"
    by (simp add: all_agents_def agent_names_def comp_def)
  then show ?thesis
    by (cases selected) (simp_all add: select_agents_def distinct_map_filter)
qed

lemma map_of_select_agents:
  "map_of (select_agents agent_of selected) persona =
     (if is_selected selected persona then Some (agent_of persona) else None)"
proof -
  have all: "map_of (all_agents agent_of) persona =
      (if persona \<in> set agent_names then Some (agent_of persona) else None)"
    by (simp add: all_agents_def map_of_map_restrict restrict_map_def)
  show ?thesis
  proof (cases selected)
    case None
    then show ?thesis by (simp add: select_agents_def is_selected_def all)
  next
    case (Some sel)
    have "map_of (filter (\<lambda>entry. fst entry \<in> set sel) xs) persona =
        (if persona \<in> set sel then map_of xs persona else None)" for xs :: "(string \<times> agent_func) list"
      by (induction xs) auto
    with Some show ?thesis by (simp add: select_agents_def is_selected_def all)
  qed
qed

lemma dict_get_Nil: "dict_get [] k = None"
  by (simp add: dict_get_def)

lemma dict_get_present_only:
  "distinct (map fst d) \<Longrightarrow>
   dict_get (present_only d) k =
     (case dict_get d k of None \<Rightarrow> None | Some v \<Rightarrow> (if v = PyNone then None else Some v))"
proof (induction d)
  case Nil
  then show ?case by (simp add: present_only_def dict_get_def)
next
  case (Cons entry d)
  then have "map_of d (fst entry) = None"
    by (simp add: map_of_eq_None_iff)
  with Cons show ?case
    by (cases entry) (auto simp: present_only_def dict_get_def)
qed

lemma averaged_scores_present_only:
  assumes "distinct (map fst d)"
  shows "averaged_scores (present_only d) = averaged_scores d"
proof -
  have "routed_for (present_only d) persona = routed_for d persona" for persona
    by (simp add: routed_for_def dict_get_present_only [OF assms] split: option.splits)
  then have "routed_for (present_only d) = routed_for d"
    by (simp add: fun_eq_iff)
  then show ?thesis
    by (simp add: averaged_scores_def accumulate_scores_routed)
qed

lemma evaluate_product_insights:
  assumes "evaluate_product agent_of call_llm idea selected mc tc ub = Inr ev"
  shows "agent_insights ev =
           run_agents (select_agents agent_of selected) (make_state idea mc tc ub) []
    \<and> overall_score ev = calculate_overall_score (averaged_scores (agent_insights ev))
    \<and> market_potential ev = averaged_scores (agent_insights ev) Market_potential
    \<and> technical_feasibility ev = averaged_scores (agent_insights ev) Technical_feasibility
    \<and> innovation_potential ev =
        averaged_scores (agent_insights ev) Scientific_breakthrough_potential"
proof -
  let ?d = "run_agents (select_agents agent_of selected) (make_state idea mc tc ub) []"
  obtain ev0 where run: "combine_insights call_llm idea ?d = Inr ev0"
    and ev: "ev = ev0 \<or> (\<exists>advice. ev = ev0\<lparr>project_recommendation := advice\<rparr>)"
    using assms
    by (auto simp: evaluate_product_def Let_def split: sum.splits option.splits if_splits)
  from headline_fields [OF run] ev show ?thesis
    by auto
qed

text \<open>
  Claim C7. An agent function that raises does not end the run: \<open>evaluate_product\<close> behaves
  exactly as if every raising function had returned \<open>None\<close>. When it returns an evaluation,
  the slot of a selected persona whose function raised holds \<open>None\<close>, the slot of every
  other selected persona holds what its function returned, and the overall score and the
  three headline scores are those computed from the slots that are not \<open>None\<close>.
\<close>

theorem raising_agent_is_recorded_as_none:
  "evaluate_product agent_of call_llm idea selected mc tc ub =
     evaluate_product (never_raising agent_of) call_llm idea selected mc tc ub
   \<and> (evaluate_product agent_of call_llm idea selected mc tc ub = Inr ev \<longrightarrow>
        (is_selected selected persona \<and> agent_of persona (make_state idea mc tc ub) = Inl e
           \<longrightarrow> dict_get (agent_insights ev) persona = Some PyNone)
        \<and> (is_selected selected other \<and> agent_of other (make_state idea mc tc ub) = Inr v
           \<longrightarrow> dict_get (agent_insights ev) other = Some v)
        \<and> overall_score ev =
            calculate_overall_score (averaged_scores (present_only (agent_insights ev)))
        \<and> market_potential ev =
            averaged_scores (present_only (agent_insights ev)) Market_potential
        \<and> technical_feasibility ev =
            averaged_scores (present_only (agent_insights ev)) Technical_feasibility
        \<and> innovation_potential ev =
            averaged_scores (present_only (agent_insights ev)) Scientific_breakthrough_potential)"
proof -
  let ?state = "make_state idea mc tc ub"
  let ?d = "run_agents (select_agents agent_of selected) ?state []"
  have caught: "evaluate_product agent_of call_llm idea selected mc tc ub =
     evaluate_product (never_raising agent_of) call_llm idea selected mc tc ub"
    by (simp add: evaluate_product_def select_agents_never_raising run_agents_never_raising)
  have slot: "dict_get ?d p =
      (if is_selected selected p
       then Some (case agent_of p ?state of Inl e \<Rightarrow> PyNone | Inr v \<Rightarrow> v) else None)" for p
    by (simp add: dict_get_run_agents [OF distinct_select_agents] map_of_select_agents
        dict_get_Nil)
  have keys: "distinct (map fst ?d)"
    by (rule distinct_run_agents) simp
  have "(is_selected selected persona \<and> agent_of persona ?state = Inl e
           \<longrightarrow> dict_get (agent_insights ev) persona = Some PyNone)
        \<and> (is_selected selected other \<and> agent_of other ?state = Inr v
           \<longrightarrow> dict_get (agent_insights ev) other = Some v)
        \<and> overall_score ev =
            calculate_overall_score (averaged_scores (present_only (agent_insights ev)))
        \<and> market_potential ev =
            averaged_scores (present_only (agent_insights ev)) Market_potential
        \<and> technical_feasibility ev =
            averaged_scores (present_only (agent_insights ev)) Technical_feasibility
        \<and> innovation_potential ev =
            averaged_scores (present_only (agent_insights ev)) Scientific_breakthrough_potential"
    if run: "evaluate_product agent_of call_llm idea selected mc tc ub = Inr ev"
  proof -
    from evaluate_product_insights [OF run] have d: "agent_insights ev = ?d"
      and fields: "overall_score ev = calculate_overall_score (averaged_scores ?d)"
        "market_potential ev = averaged_scores ?d Market_potential"
        "technical_feasibility ev = averaged_scores ?d Technical_feasibility"
        "innovation_potential ev = averaged_scores ?d Scientific_breakthrough_potential"
      by simp_all
    show ?thesis
      using fields by (simp add: d slot averaged_scores_present_only [OF keys])
  qed
  with caught show ?thesis by blast
qed

lemma example_split: "str_split ''```json ok```'' fence = [[], ''json ok'', []]"
  by (simp add: str_split_def fence_def)

lemma unfenced_split:
  "str_split ''Validate demand with ten pilot customers.'' fence =
     [''Validate demand with ten pilot customers.'']"
  by (simp add: str_split_def fence_def)

lemma example_failed_run:
  "evaluate_product example_agent_of example_llm ''idea'' (Some [''Sam Altman'', ''Elon Musk''])
     None None None = Inr example_failed_evaluation"
proof -
  have d: "run_agents (select_agents example_agent_of (Some [''Sam Altman'', ''Elon Musk'']))
             (make_state ''idea'' None None None) [] = example_failed_insights"
    by (simp add: select_agents_def all_agents_def agent_names_def example_agent_of_def
        example_failed_insights_def)
  have s: "spec_contributions example_failed_insights key
           = (if key = Opportunity_score then [3/5] else if key = Market_potential then [1/5]
              else if key = Technical_feasibility then [1] else [])" for key
    by (cases key)
      (simp_all add: spec_contributions_def persona_order_def routed_for_def dict_get_def
        pick_def example_failed_insights_def)
  have l: "collect_insights example_failed_insights = ([''e1''], [''w1''])"
    by (simp add: collect_insights_spec spec_key_insights_def spec_potential_risks_def
        persona_order_def lists_for_def dict_get_def example_failed_insights_def)
  have g: "generate_recommendations example_llm idea sc ins risks = Inr fallback_recommendations"
    for idea sc ins risks
    by (simp add: generate_recommendations_def example_llm_def example_split)
  have a: "dict_get example_failed_insights ''Project Advisor'' = None"
    by (simp add: dict_get_def example_failed_insights_def)
  show ?thesis
    by (simp add: evaluate_product_def d combine_insights_def g a l Let_def overall_six
        averaged_scores_mean s spec_mean_def example_failed_evaluation_def)
qed

text \<open>
  The example run: Sam Altman's function raises, his slot holds \<open>None\<close>, Elon Musk's signal
  is recorded and alone determines the scores.
\<close>

theorem raising_agent_is_recorded_as_none_witness:
  "evaluate_product example_agent_of example_llm ''idea''
     (Some [''Sam Altman'', ''Elon Musk'']) None None None = Inr example_failed_evaluation
   \<and> is_selected (Some [''Sam Altman'', ''Elon Musk'']) ''Sam Altman''
   \<and> example_agent_of ''Sam Altman'' (make_state ''idea'' None None None) =
       Inl (OtherException ''ConnectionError'')
   \<and> dict_get (agent_insights example_failed_evaluation) ''Sam Altman'' = Some PyNone
   \<and> dict_get (agent_insights example_failed_evaluation) ''Elon Musk'' =
       Some (ElonMuskSignal 0.6 0.2 1 ''r'' [''e1''] [''w1''])
   \<and> present_only (agent_insights example_failed_evaluation) =
       [(''Elon Musk'', ElonMuskSignal 0.6 0.2 1 ''r'' [''e1''] [''w1''])]
   \<and> market_potential example_failed_evaluation =
       averaged_scores (present_only (agent_insights example_failed_evaluation)) Market_potential
   \<and> market_potential example_failed_evaluation = 1/5"
proof -
  have run: "evaluate_product example_agent_of example_llm ''idea''
     (Some [''Sam Altman'', ''Elon Musk'']) None None None = Inr example_failed_evaluation"
    by (rule example_failed_run)
  have sel: "is_selected (Some [''Sam Altman'', ''Elon Musk'']) ''Sam Altman''"
    "is_selected (Some [''Sam Altman'', ''Elon Musk'']) ''Elon Musk''"
    by (simp_all add: is_selected_def agent_names_def)
  have raises: "example_agent_of ''Sam Altman'' (make_state ''idea'' None None None) =
       Inl (OtherException ''ConnectionError'')"
    by (simp add: example_agent_of_def)
  have returns: "example_agent_of ''Elon Musk'' (make_state ''idea'' None None None) =
       Inr (ElonMuskSignal 0.6 0.2 1 ''r'' [''e1''] [''w1''])"
    by (simp add: example_agent_of_def)
  have "dict_get (agent_insights example_failed_evaluation) ''Sam Altman'' = Some PyNone
    \<and> dict_get (agent_insights example_failed_evaluation) ''Elon Musk'' =
       Some (ElonMuskSignal 0.6 0.2 1 ''r'' [''e1''] [''w1''])
    \<and> market_potential example_failed_evaluation =
       averaged_scores (present_only (agent_insights example_failed_evaluation)) Market_potential"
    using raising_agent_is_recorded_as_none
      [of example_agent_of example_llm "''idea''" "Some [''Sam Altman'', ''Elon Musk'']"
        None None None example_failed_evaluation "''Sam Altman''"
        "OtherException ''ConnectionError''" "''Elon Musk''"
        "ElonMuskSignal 0.6 0.2 1 ''r'' [''e1''] [''w1'']"]
      run sel raises returns
    by blast
  moreover have "present_only (agent_insights example_failed_evaluation) =
       [(''Elon Musk'', ElonMuskSignal 0.6 0.2 1 ''r'' [''e1''] [''w1''])]"
    by (simp add: present_only_def example_failed_evaluation_def example_failed_insights_def)
  moreover have "market_potential example_failed_evaluation = 1/5"
    by (simp add: example_failed_evaluation_def)
  ultimately show ?thesis
    using run sel raises by (simp add: example_failed_evaluation_def)
qed

text \<open>
  Claim C1 (the code does not meet it). \<open>evaluate_product\<close> raises on inputs it can receive:
  with no persona selected and a reply to the recommendation prompt that has no code fence,
  \<open>response.split(fence)[1]\<close> raises \<open>IndexError\<close>, which the handler of
  \<open>_generate_recommendations\<close> does not catch; and when the Project Advisor's slot holds a
  \<open>ProjectRecommendation\<close>, \<open>_combine_insights\<close> reads an attribute that the class does not
  have. With a fenced reply and no persona selected it returns the evaluation with all
  scores 0, empty insight and risk lists and the fallback recommendations.
\<close>

theorem evaluate_product_can_raise:
  "evaluate_product agent_of unfenced_llm ''idea'' (Some []) None None None = Inl IndexError
   \<and> evaluate_product example_advised_agent_of example_llm ''idea''
        (Some [''Sam Altman'', ''Project Advisor'']) None None None = Inl AttributeError
   \<and> evaluate_product agent_of example_llm ''idea'' (Some []) None None None =
       Inr \<lparr> product_idea = ''idea'', overall_score = 0, market_potential = 0,
             technical_feasibility = 0, innovation_potential = 0,
             key_insights = [], potential_risks = [], agent_insights = [],
             recommendations = fallback_recommendations,
             project_recommendation = PyNone \<rparr>"
proof -
  have none: "select_agents agent_of (Some []) = []"
    by (simp add: select_agents_def)
  have s: "spec_contributions [] key = []" for key
    by (simp add: spec_contributions_def persona_order_def routed_for_def dict_get_def pick_def)
  have empty: "combine_insights call_llm ''idea'' [] =
      (case generate_recommendations call_llm ''idea'' (\<lambda>key. 0) [] [] of
         Inl e \<Rightarrow> Inl e
       | Inr recs \<Rightarrow>
           Inr \<lparr> product_idea = ''idea'', overall_score = 0, market_potential = 0,
                 technical_feasibility = 0, innovation_potential = 0,
                 key_insights = [], potential_risks = [], agent_insights = [],
                 recommendations = recs, project_recommendation = PyNone \<rparr>)" for call_llm
  proof -
    have "averaged_scores [] = (\<lambda>key. 0)"
      by (simp add: fun_eq_iff averaged_scores_mean s spec_mean_def)
    then show ?thesis
      by (cases "generate_recommendations call_llm ''idea'' (\<lambda>key. 0) [] []")
        (simp_all add: combine_insights_def Let_def overall_six collect_insights_spec
          spec_key_insights_def spec_potential_risks_def persona_order_def lists_for_def
          dict_get_def)
  qed
  have a: "evaluate_product agent_of unfenced_llm ''idea'' (Some []) None None None =
             Inl IndexError"
    by (simp add: evaluate_product_def none empty generate_recommendations_def unfenced_llm_def
        unfenced_split)
  have c: "evaluate_product agent_of example_llm ''idea'' (Some []) None None None =
       Inr \<lparr> product_idea = ''idea'', overall_score = 0, market_potential = 0,
             technical_feasibility = 0, innovation_potential = 0,
             key_insights = [], potential_risks = [], agent_insights = [],
             recommendations = fallback_recommendations,
             project_recommendation = PyNone \<rparr>"
    by (simp add: evaluate_product_def none empty generate_recommendations_def example_llm_def
        example_split dict_get_def)
  have d: "run_agents
             (select_agents example_advised_agent_of (Some [''Sam Altman'', ''Project Advisor'']))
             (make_state ''idea'' None None None) [] =
           [(''Sam Altman'',
               SamAltmanSignal 0.5 0.5 0.5 ''r'' [''Default insight''] [''Default risk'']),
            (''Project Advisor'', ProjectRecommendationObj fallback_recommendation)]"
    by (simp add: select_agents_def all_agents_def agent_names_def example_advised_agent_of_def)
  have b: "evaluate_product example_advised_agent_of example_llm ''idea''
        (Some [''Sam Altman'', ''Project Advisor'']) None None None = Inl AttributeError"
    by (simp add: evaluate_product_def d combine_insights_def Let_def dict_get_def)
  from a b c show ?thesis by simp
qed

section \<open>The Project Advisor's recommendation\<close>






section \<open>The registry\<close>

text \<open>
  Loading changes settings and never ids; an entry with an unknown id changes nothing; an
  id with no entry is not touched; loading what \<open>_save_config\<close> wrote gives every agent the
  saved settings.
\<close>

lemma default_agent_ids:
  "map fst default_agents =
     [''sam_altman'', ''demis_hassabis'', ''elon_musk'', ''adam_dangelo'', ''daniel_gross'',
      ''sebastian_thrun'', ''emad_mostaque'', ''clement_delangue'', ''project_advisor'']"
  by (simp add: default_agents_def)

lemma distinct_default_agent_ids: "distinct (map fst default_agents)"
  by (simp add: default_agent_ids)

lemma dict_get_None_iff: "dict_get d k = None \<longleftrightarrow> k \<notin> set (map fst d)"
  by (simp add: dict_get_def map_of_eq_None_iff)

lemma keys_dict_set_known: "dict_get d k = Some a \<Longrightarrow> map fst (dict_set d k v) = map fst d"
proof -
  assume "dict_get d k = Some a"
  then have "k \<in> set (map fst d)"
    using dict_get_None_iff [of d k] by auto
  then show ?thesis
    by (simp add: keys_dict_set)
qed

lemma keys_load_items: "map fst (fst (load_items items ags)) = map fst ags"
proof (induction items ags rule: load_items.induct)
  case (1 ags)
  then show ?case by simp
next
  case (2 agent_id config rest ags)
  then show ?case
    by (auto simp: keys_dict_set_known split: option.splits json.splits)
qed

lemma load_items_skip_unknown:
  "dict_get ags uid = None \<Longrightarrow>
   load_items (xs @ (uid, v) # ys) ags = load_items (xs @ ys) ags"
proof (induction xs arbitrary: ags)
  case Nil
  then show ?case by simp
next
  case (Cons entry xs)
  obtain agent_id config where entry: "entry = (agent_id, config)"
    by (cases entry)
  show ?case
  proof (cases "dict_get ags agent_id")
    case None
    with Cons entry show ?thesis by simp
  next
    case (Some agent)
    with Cons.prems have "agent_id \<noteq> uid" by auto
    then have "dict_get (dict_set ags agent_id a) uid = None" for a
      using Cons.prems by (simp add: dict_get_dict_set)
    with Cons.IH Some entry show ?thesis
      by (cases config) simp_all
  qed
qed

lemma load_items_missing:
  "agent_id \<notin> set (map fst items) \<Longrightarrow>
   dict_get (fst (load_items items ags)) agent_id = dict_get ags agent_id"
proof (induction items ags rule: load_items.induct)
  case (1 ags)
  then show ?case by simp
next
  case (2 other config rest ags)
  then show ?case
    by (auto simp: dict_get_dict_set split: option.splits json.splits)
qed

lemma load_items_config_data:
  "distinct (map fst ags) \<Longrightarrow> set (map fst ags) \<subseteq> set (map fst base) \<Longrightarrow>
   snd (load_items (map (\<lambda>entry. (fst entry,
          JDict [(''enabled'', enabled (snd entry)), (''priority'', priority (snd entry))])) ags)
        base) = None
   \<and> dict_get (fst (load_items (map (\<lambda>entry. (fst entry,
          JDict [(''enabled'', enabled (snd entry)), (''priority'', priority (snd entry))])) ags)
        base)) k =
       (case map_of ags k of
          None \<Rightarrow> dict_get base k
        | Some saved \<Rightarrow> map_option (restored saved) (dict_get base k))"
proof (induction ags arbitrary: base)
  case Nil
  then show ?case by simp
next
  case (Cons entry ags)
  obtain agent_id saved where entry: "entry = (agent_id, saved)"
    by (cases entry)
  from Cons.prems entry obtain b where b: "dict_get base agent_id = Some b"
    using dict_get_None_iff [of base agent_id] by auto
  let ?base = "dict_set base agent_id (restored saved b)"
  have keys: "map fst ?base = map fst base"
    using b by (rule keys_dict_set_known)
  from Cons.prems entry have fresh: "map_of ags agent_id = None"
    by (simp add: map_of_eq_None_iff)
  have step: "load_items (map (\<lambda>entry. (fst entry,
          JDict [(''enabled'', enabled (snd entry)), (''priority'', priority (snd entry))]))
            (entry # ags)) base =
        load_items (map (\<lambda>entry. (fst entry,
          JDict [(''enabled'', enabled (snd entry)), (''priority'', priority (snd entry))])) ags)
            ?base"
    using b entry by (simp add: restored_def dict_get_default_def dict_get_def)
  from Cons.prems entry have "distinct (map fst ags)" "set (map fst ags) \<subseteq> set (map fst ?base)"
    by (simp_all add: keys)
  from Cons.IH [OF this] fresh b show ?case
    unfolding step by (simp add: entry dict_get_dict_set split: option.splits)
qed

text \<open>Every selector that the operations produce is well formed.\<close>

lemma keys_load_items_result:
  "load_items items ags = (ags', err) \<Longrightarrow> map fst ags' = map fst ags"
  using keys_load_items [of items ags] by simp

lemma well_formed_load_config: "well_formed sel \<Longrightarrow> well_formed (load_config fs sel)"
  by (auto simp: well_formed_def load_config_def split: option.splits stored.splits json.splits
      prod.splits dest: keys_load_items_result)

lemma effective_path_not_empty: "effective_path path \<noteq> []"
  by (simp add: effective_path_def split: option.splits)

lemma well_formed_init_selector: "well_formed (init_selector path fs)"
  unfolding init_selector_def
  by (rule well_formed_load_config) (simp add: well_formed_def effective_path_not_empty)

lemma well_formed_save_config: "well_formed sel \<Longrightarrow> well_formed (fst (save_config sel fs))"
  by (simp add: well_formed_def save_config_def)

lemma well_formed_toggle_agent:
  "well_formed sel \<Longrightarrow> well_formed (fst (snd (toggle_agent agent_id sel fs)))"
  by (auto simp: well_formed_def toggle_agent_def save_config_def Let_def keys_dict_set_known
      split: option.splits)

lemma well_formed_set_agent_priority:
  "well_formed sel \<Longrightarrow> well_formed (fst (snd (set_agent_priority agent_id p sel fs)))"
  by (auto simp: well_formed_def set_agent_priority_def save_config_def Let_def
      keys_dict_set_known split: option.splits)

lemma init_selector_stored:
  assumes "files fs (effective_path path) = Some (Document (JDict items))"
  shows "agents (init_selector path fs) = fst (load_items items default_agents)"
  using assms
  by (simp add: init_selector_def load_config_def split: prod.splits option.splits)

lemma priority_round_trip:
  assumes wf: "well_formed sel"
    and known: "agent_id \<in> set (map fst default_agents)"
    and writable: "writable fs (config_file sel)"
  shows "fst (set_agent_priority agent_id p sel fs) = True
    \<and> map_option priority
        (dict_get (agents (init_selector (Some (config_file sel))
                             (snd (snd (set_agent_priority agent_id p sel fs))))) agent_id) =
       Some (JInt p)"
proof -
  from wf known obtain agent where agent: "dict_get (agents sel) agent_id = Some agent"
    using dict_get_None_iff [of "agents sel" agent_id] by (auto simp: well_formed_def)
  from known obtain base where base: "dict_get default_agents agent_id = Some base"
    using dict_get_None_iff [of default_agents agent_id] by auto
  let ?ags = "dict_set (agents sel) agent_id (agent\<lparr> priority := JInt p \<rparr>)"
  let ?fs = "snd (snd (set_agent_priority agent_id p sel fs))"
  have keys: "map fst ?ags = map fst default_agents"
    using wf agent by (simp add: keys_dict_set_known well_formed_def)
  have path: "effective_path (Some (config_file sel)) = config_file sel"
    using wf by (simp add: effective_path_def well_formed_def)
  have result: "set_agent_priority agent_id p sel fs =
      (True, sel\<lparr> agents := ?ags \<rparr>,
       fs\<lparr> files := (files fs)(config_file sel := Some (Document (config_data_of ?ags))) \<rparr>)"
    using agent writable by (simp add: set_agent_priority_def save_config_def Let_def)
  then have stored: "files ?fs (effective_path (Some (config_file sel))) =
      Some (Document (JDict (map (\<lambda>entry. (fst entry,
          JDict [(''enabled'', enabled (snd entry)), (''priority'', priority (snd entry))])) ?ags)))"
    by (simp add: path config_data_of_def)
  have "distinct (map fst ?ags)" "set (map fst ?ags) \<subseteq> set (map fst default_agents)"
    by (simp_all add: keys distinct_default_agent_ids)
  from load_items_config_data [OF this, of agent_id]
  have "dict_get (agents (init_selector (Some (config_file sel)) ?fs)) agent_id =
      Some (restored (agent\<lparr> priority := JInt p \<rparr>) base)"
    using base dict_get_dict_set [of "agents sel" agent_id _ agent_id]
    by (simp add: init_selector_stored [OF stored] dict_get_def)
  with result show ?thesis
    by (simp add: restored_def)
qed

text \<open>
  Claim C6. Registry persistence round-trips. For every known agent id and every priority
  \<open>p\<close>, \<open>set_agent_priority\<close> on a selector whose configuration file can be written returns
  \<open>True\<close>, and a fresh selector constructed over the same file afterwards has priority \<open>p\<close> for
  that id. An entry of the stored document whose id is not a built-in one is ignored: the
  fresh selector, console included, is the same as without the entry. An id with no entry
  in the stored document keeps its built-in configuration.
\<close>

theorem registry_persistence_round_trips:
  "(well_formed sel \<and> agent_id \<in> set (map fst default_agents) \<and> writable fs (config_file sel)
      \<longrightarrow> fst (set_agent_priority agent_id p sel fs) = True
         \<and> map_option priority
             (dict_get (agents (init_selector (Some (config_file sel))
                                  (snd (snd (set_agent_priority agent_id p sel fs))))) agent_id) =
            Some (JInt p))
   \<and> (unknown_id \<notin> set (map fst default_agents)
      \<longrightarrow> init_selector path
            (store_document fs' (effective_path path) (JDict (xs @ (unknown_id, v) # ys))) =
          init_selector path (store_document fs' (effective_path path) (JDict (xs @ ys))))
   \<and> (files fs'' (effective_path path) = Some (Document (JDict items))
       \<and> missing_id \<notin> set (map fst items)
      \<longrightarrow> dict_get (agents (init_selector path fs'')) missing_id =
          dict_get default_agents missing_id)"
proof -
  have ignored: "init_selector path
            (store_document fs' (effective_path path) (JDict (xs @ (unknown_id, v) # ys))) =
          init_selector path (store_document fs' (effective_path path) (JDict (xs @ ys)))"
    if "unknown_id \<notin> set (map fst default_agents)"
  proof -
    from that have "dict_get default_agents unknown_id = None"
      by (simp add: dict_get_None_iff)
    then show ?thesis
      by (simp add: init_selector_def load_config_def store_document_def
          load_items_skip_unknown)
  qed
  have kept: "dict_get (agents (init_selector path fs'')) missing_id =
          dict_get default_agents missing_id"
    if "files fs'' (effective_path path) = Some (Document (JDict items))"
      and "missing_id \<notin> set (map fst items)"
    using that by (simp add: init_selector_stored load_items_missing)
  show ?thesis
    using priority_round_trip [of sel agent_id fs p] ignored kept by blast
qed

lemma dict_get_default_agents_sam:
  "map_option priority (dict_get default_agents ''sam_altman'') = Some (JInt 1)"
  by (simp add: default_agents_def dict_get_def)

text \<open>
  Setting the priority of \<open>elon_musk\<close> to 7 and loading again; a stored entry for the
  unknown id \<open>grace_hopper\<close>; a stored document with no entry for \<open>sam_altman\<close>.
\<close>

theorem registry_persistence_round_trips_witness:
  "well_formed (init_selector None empty_fs)
   \<and> ''elon_musk'' \<in> set (map fst default_agents)
   \<and> writable empty_fs (config_file (init_selector None empty_fs))
   \<and> map_option priority
        (dict_get (agents (init_selector (Some (config_file (init_selector None empty_fs)))
           (snd (snd (set_agent_priority ''elon_musk'' 7 (init_selector None empty_fs)
                        empty_fs))))) ''elon_musk'') = Some (JInt 7)
   \<and> ''grace_hopper'' \<notin> set (map fst default_agents)
   \<and> init_selector None
        (store_document empty_fs (effective_path None)
           (JDict ([] @ (''grace_hopper'', JDict [(''enabled'', JBool False)]) # []))) =
       init_selector None (store_document empty_fs (effective_path None) (JDict ([] @ [])))
   \<and> files (store_document empty_fs ''agent_config.json'' example_stored_config)
        (effective_path None) =
       Some (Document (JDict [(''elon_musk'',
                                 JDict [(''enabled'', JBool False), (''priority'', JInt 42)])]))
   \<and> map_option priority
        (dict_get (agents (init_selector None
            (store_document empty_fs ''agent_config.json'' example_stored_config)))
          ''sam_altman'') = Some (JInt 1)"
proof -
  have wf: "well_formed (init_selector None empty_fs)"
    by (rule well_formed_init_selector)
  have known: "''elon_musk'' \<in> set (map fst default_agents)"
    and unknown: "''grace_hopper'' \<notin> set (map fst default_agents)"
    by (simp_all add: default_agent_ids)
  have w: "writable empty_fs (config_file (init_selector None empty_fs))"
    by (simp add: empty_fs_def)
  have stored: "files (store_document empty_fs ''agent_config.json'' example_stored_config)
        (effective_path None) =
       Some (Document (JDict [(''elon_musk'',
                                 JDict [(''enabled'', JBool False), (''priority'', JInt 42)])]))"
    by (simp add: store_document_def effective_path_def example_stored_config_def)
  have missing: "''sam_altman'' \<notin> set (map fst
      [(''elon_musk'', JDict [(''enabled'', JBool False), (''priority'', JInt 42)])])"
    by simp
  show ?thesis
    using registry_persistence_round_trips
      [of "init_selector None empty_fs" "''elon_musk''" empty_fs 7 "''grace_hopper''" None
        empty_fs "[]" "JDict [(''enabled'', JBool False)]" "[]"
        "store_document empty_fs ''agent_config.json'' example_stored_config"
        "[(''elon_musk'', JDict [(''enabled'', JBool False), (''priority'', JInt 42)])]"
        "''sam_altman''"]
      wf known unknown w stored missing dict_get_default_agents_sam
    by simp
qed

lemma toggle_project_advisor:
  "fst (toggle_agent ''project_advisor'' sel fs) = False
   \<and> agents (fst (snd (toggle_agent ''project_advisor'' sel fs))) = agents sel
   \<and> snd (snd (toggle_agent ''project_advisor'' sel fs)) = fs"
  by (simp add: toggle_agent_def split: option.splits)

text \<open>
  Claim C4 (the code does not meet it). \<open>toggle_agent\<close> refuses the Project Advisor, but
  \<open>_load_config\<close> has no such guard: constructing a selector over a stored document whose
  entry for \<open>project_advisor\<close> has \<open>enabled\<close> false leaves the Project Advisor disabled, with
  nothing printed, and \<open>toggle_agent\<close> then returns \<open>False\<close> and leaves it disabled.
\<close>

theorem stored_file_can_disable_project_advisor:
  "map_option enabled
     (dict_get (agents (init_selector None
         (store_document empty_fs ''agent_config.json'' example_disabling_config)))
       ''project_advisor'') = Some (JBool False)
   \<and> console (init_selector None
         (store_document empty_fs ''agent_config.json'' example_disabling_config)) = []
   \<and> fst (toggle_agent ''project_advisor''
         (init_selector None
            (store_document empty_fs ''agent_config.json'' example_disabling_config))
         (store_document empty_fs ''agent_config.json'' example_disabling_config)) = False
   \<and> map_option enabled
        (dict_get (agents (fst (snd (toggle_agent ''project_advisor''
           (init_selector None
              (store_document empty_fs ''agent_config.json'' example_disabling_config))
           (store_document empty_fs ''agent_config.json'' example_disabling_config)))))
          ''project_advisor'') = Some (JBool False)"
proof -
  let ?fs = "store_document empty_fs ''agent_config.json'' example_disabling_config"
  have stored: "files ?fs (effective_path None) = Some (Document (JDict
      [(''project_advisor'', JDict [(''enabled'', JBool False), (''priority'', JInt 9)])]))"
    by (simp add: store_document_def effective_path_def example_disabling_config_def)
  have loaded: "map_option enabled
     (dict_get (fst (load_items
        [(''project_advisor'', JDict [(''enabled'', JBool False), (''priority'', JInt 9)])]
        default_agents)) ''project_advisor'') = Some (JBool False)"
    by (simp add: default_agents_def dict_get_def dict_get_default_def)
  have a: "map_option enabled (dict_get (agents (init_selector None ?fs)) ''project_advisor'') =
      Some (JBool False)"
    by (simp only: init_selector_stored [OF stored] loaded)
  have b: "console (init_selector None ?fs) = []"
    using stored
    by (simp add: init_selector_def load_config_def default_agents_def dict_get_def
        dict_get_default_def)
  from a b toggle_project_advisor [of "init_selector None ?fs" ?fs] show ?thesis
    by simp
qed

section \<open>Extracting JSON from a reply\<close>

text \<open>
  For a needle of one character, \<open>find\<close> counts the characters before its first occurrence
  and \<open>rfind\<close> those before its last one; the slice between them is the text from the first
  opener to the last closer after it.
\<close>

lemma starts_with_single: "starts_with (c # cs) [ch] = (c = ch)"
  by simp

lemma str_find_from_single:
  "str_find_from s [ch] i =
     (if ch \<in> set s then i + int (length (takeWhile (\<lambda>c. c \<noteq> ch) s)) else - 1)"
  by (induction s arbitrary: i) auto

lemma str_rfind_from_single:
  "str_rfind_from s [ch] i best =
     (if ch \<in> set s
      then i + int (length s) - 1 - int (length (takeWhile (\<lambda>c. c \<noteq> ch) (rev s)))
      else best)"
proof (induction s arbitrary: i best)
  case Nil
  then show ?case by simp
next
  case (Cons c cs)
  show ?case
  proof (cases "ch \<in> set cs")
    case True
    then have "takeWhile (\<lambda>c. c \<noteq> ch) (rev cs @ [c]) = takeWhile (\<lambda>c. c \<noteq> ch) (rev cs)"
      by simp
    with True Cons show ?thesis by simp
  next
    case False
    then have "takeWhile (\<lambda>c. c \<noteq> ch) (rev cs @ [c]) =
        rev cs @ takeWhile (\<lambda>c. c \<noteq> ch) [c]"
      by (intro takeWhile_append2) auto
    with False Cons show ?thesis by auto
  qed
qed

lemma takeWhile_shorter: "x \<in> set xs \<Longrightarrow> \<not> P x \<Longrightarrow> length (takeWhile P xs) < length xs"
  by (induction xs) auto

lemma upto_last_take:
  "upto_last closer t = take (length t - length (takeWhile (\<lambda>c. c \<noteq> closer) (rev t))) t"
proof -
  have "dropWhile (\<lambda>c. c \<noteq> closer) (rev t) =
      drop (length (takeWhile (\<lambda>c. c \<noteq> closer) (rev t))) (rev t)"
    by (rule dropWhile_eq_drop)
  then show ?thesis
    by (simp add: upto_last_def rev_drop)
qed

lemma span_of_indices:
  "(str_find s [opener] \<ge> 0 \<and> str_rfind s [closer] + 1 > str_find s [opener]) =
     has_span opener closer s
   \<and> (has_span opener closer s \<longrightarrow>
        str_slice s (str_find s [opener]) (str_rfind s [closer] + 1) =
          first_to_last opener closer s)"
proof -
  let ?pre = "takeWhile (\<lambda>c. c \<noteq> opener) s"
  let ?t = "dropWhile (\<lambda>c. c \<noteq> opener) s"
  have s: "s = ?pre @ ?t" by simp
  have len: "length s = length ?pre + length ?t"
    by (metis s length_append)
  show ?thesis
  proof (cases "closer \<in> set ?t")
    case True
    then have t: "?t \<noteq> []"
      by (metis empty_iff empty_set)
    then have op_in: "opener \<in> set s"
      by auto
    from True have cl_in: "closer \<in> set s"
      by (metis set_dropWhileD)
    have "takeWhile (\<lambda>c. c \<noteq> closer) (rev s) =
        takeWhile (\<lambda>c. c \<noteq> closer) (rev ?t @ rev ?pre)"
      by (metis s rev_append)
    also have "\<dots> = takeWhile (\<lambda>c. c \<noteq> closer) (rev ?t)"
      using True by simp
    finally have tw: "takeWhile (\<lambda>c. c \<noteq> closer) (rev s) =
        takeWhile (\<lambda>c. c \<noteq> closer) (rev ?t)" .
    let ?k = "length (takeWhile (\<lambda>c. c \<noteq> closer) (rev ?t))"
    have k: "?k < length ?t"
      using True takeWhile_shorter [of closer "rev ?t" "\<lambda>c. c \<noteq> closer"] by simp
    have find: "str_find s [opener] = int (length ?pre)"
      using op_in by (simp add: str_find_def str_find_from_single)
    have rfind: "str_rfind s [closer] + 1 = int (length ?pre) + int (length ?t - ?k)"
      using cl_in k by (simp add: str_rfind_def str_rfind_from_single tw len)
    have "str_slice s (str_find s [opener]) (str_rfind s [closer] + 1) =
        take (length ?t - ?k) (drop (length ?pre) s)"
      by (simp add: str_slice_def find rfind)
    also have "drop (length ?pre) s = ?t"
      by (metis dropWhile_eq_drop)
    finally have "str_slice s (str_find s [opener]) (str_rfind s [closer] + 1) =
        first_to_last opener closer s"
      by (simp add: first_to_last_def from_first_def upto_last_take)
    moreover have "str_find s [opener] \<ge> 0 \<and> str_rfind s [closer] + 1 > str_find s [opener]"
      using k by (simp add: find rfind)
    ultimately show ?thesis
      using True by (simp add: has_span_def from_first_def)
  next
    case False
    have "\<not> (str_find s [opener] \<ge> 0 \<and> str_rfind s [closer] + 1 > str_find s [opener])"
    proof (cases "opener \<in> set s")
      case op_in: True
      have find: "str_find s [opener] = int (length ?pre)"
        using op_in by (simp add: str_find_def str_find_from_single)
      show ?thesis
      proof (cases "closer \<in> set s")
        case True
        have "takeWhile (\<lambda>c. c \<noteq> closer) (rev s) =
            takeWhile (\<lambda>c. c \<noteq> closer) (rev ?t @ rev ?pre)"
          by (metis s rev_append)
        also have "\<dots> = rev ?t @ takeWhile (\<lambda>c. c \<noteq> closer) (rev ?pre)"
          using False by (intro takeWhile_append2) auto
        finally have "length (takeWhile (\<lambda>c. c \<noteq> closer) (rev s)) \<ge> length ?t"
          by simp
        then have "str_rfind s [closer] + 1 \<le> int (length ?pre)"
          using True by (simp add: str_rfind_def str_rfind_from_single len)
        then show ?thesis by (simp add: find)
      next
        case False
        then show ?thesis
          by (simp add: str_rfind_def str_rfind_from_single find)
      qed
    next
      case False
      then show ?thesis
        by (simp add: str_find_def str_find_from_single)
    qed
    with False show ?thesis
      by (simp add: has_span_def from_first_def)
  qed
qed

lemma json_str_of_spans:
  "json_str_of content =
     (if has_span (CHR ''{'') (CHR ''}'') content
      then Some (first_to_last (CHR ''{'') (CHR ''}'') content)
      else if has_span (CHR ''['') (CHR '']'') content
      then Some (first_to_last (CHR ''['') (CHR '']'') content)
      else None)"
  using span_of_indices [of content "CHR ''{''" "CHR ''}''"]
    span_of_indices [of content "CHR ''[''" "CHR '']''"]
  by (simp add: json_str_of_def Let_def)

text \<open>
  Claim C8, as amended. For every reply text, \<open>extract_json_from_response\<close> takes the text
  from the first \<open>{\<close> to the last \<open>}\<close> when a \<open>}\<close> occurs after the first \<open>{\<close>, otherwise
  in the same way the text from the first \<open>[\<close> to the last \<open>]\<close>, and returns what \<open>json.loads\<close>
  makes of that text, or \<open>None\<close> when \<open>json.loads\<close> raises; with neither span it returns
  \<open>None\<close>. It never raises.
\<close>

theorem extraction_takes_first_opener_to_last_closer:
  "extract_json_from_response json_loads content =
     (if has_span (CHR ''{'') (CHR ''}'') content
      then loads_or_none json_loads (first_to_last (CHR ''{'') (CHR ''}'') content)
      else if has_span (CHR ''['') (CHR '']'') content
      then loads_or_none json_loads (first_to_last (CHR ''['') (CHR '']'') content)
      else JNull)"
  by (simp add: extract_json_from_response_def json_str_of_spans)

text \<open>
  In a reply that holds an array around an object the object is returned; a reply with no
  bracket gives \<open>None\<close>.
\<close>

theorem extraction_takes_first_opener_to_last_closer_witness:
  "has_span (CHR ''{'') (CHR ''}'') ''Answer: [{}] done''
   \<and> first_to_last (CHR ''{'') (CHR ''}'') ''Answer: [{}] done'' = ''{}''
   \<and> extract_json_from_response example_loads ''Answer: [{}] done'' = JDict []
   \<and> extract_json_from_response example_loads ''no json here'' = JNull"
proof -
  have a: "has_span (CHR ''{'') (CHR ''}'') ''Answer: [{}] done''"
    and b: "first_to_last (CHR ''{'') (CHR ''}'') ''Answer: [{}] done'' = ''{}''"
    and c: "\<not> has_span (CHR ''{'') (CHR ''}'') ''no json here''"
      "\<not> has_span (CHR ''['') (CHR '']'') ''no json here''"
    by (simp_all add: has_span_def first_to_last_def from_first_def upto_last_def)
  show ?thesis
    using extraction_takes_first_opener_to_last_closer [of example_loads "''Answer: [{}] done''"]
      extraction_takes_first_opener_to_last_closer [of example_loads "''no json here''"]
      a b c
    by (simp add: loads_or_none_def example_loads_def)
qed

text \<open>
  Claim C8 as stated fails: in the reply \<open>{} {}\<close> the first balanced span is \<open>{}\<close>, which
  parses to the empty object, but the code hands the whole reply to the parser, which
  rejects it, and returns \<open>None\<close>.
\<close>

theorem extraction_is_not_first_balanced_span:
  "spec_first_balanced_span ''{} {}'' = Some ''{}''
   \<and> example_loads ''{}'' = Inr (JDict [])
   \<and> json_str_of ''{} {}'' = Some ''{} {}''
   \<and> extract_json_from_response example_loads ''{} {}'' = JNull"
  by (simp add: extract_json_from_response_def json_str_of_def str_find_def str_rfind_def
      str_slice_def loads_or_none_def example_loads_def Let_def)

section \<open>Default values\<close>






text \<open>
  For a \<open>list[str]\<close> field the loop of \<open>create_default_response\<close> stores the type object
  \<open>str\<close>, the first argument of the annotation, and not a list.
\<close>

lemma default_for_list_field:
  "default_for (AnnGeneric ''list'' AnnStr) = DefaultTypeObject AnnStr
   \<and> create_default_response build_model SamAltmanSignal_fields =
       build_model
         [(''opportunity_score'', DefaultValue (JFloat 0)),
          (''market_potential'', DefaultValue (JFloat 0)),
          (''technical_feasibility'', DefaultValue (JFloat 0)),
          (''reasoning'', DefaultValue (JStr ''Error in analysis, using default'')),
          (''key_insights'', DefaultTypeObject AnnStr),
          (''potential_risks'', DefaultTypeObject AnnStr)]"
  by (simp add: create_default_response_def default_values_def SamAltmanSignal_fields_def)

end
